theory Spec2Isabelle
  imports Complex_Main "HOL-Library.Multiset"
begin

section \<open>Combatants (pokemon\_base.py)\<close>

text \<open>
  Numbers. Python mixes unbounded ints and floats in the combat statistics: the
  catalogue creates integer statistics, evolution multiplies them by 1.5 and
  \<open>defend\<close> subtracts \<open>damage / 2\<close>. The model reads every such number as an exact
  rational (\<open>rat\<close>), so the rounding of floating-point arithmetic is left out;
  \<open>math.ceil\<close> is \<open>ceiling\<close> and returns an \<open>int\<close>. The level is only ever
  incremented and stays an \<open>int\<close>.
\<close>

datatype PokeType =
  FIRE | WATER | GRASS | BUG | DRAGON | ELECTRIC | FIGHTING | FLYING | GHOST
  | GROUND | ICE | NORMAL | POISON | PSYCHIC | ROCK

datatype error = ValueError | TypeError | AttributeError | ZeroDivisionError | IndexError

text \<open>
  The attributes of \<open>Pokemon.__init__\<close>. \<open>species\<close> stands for the Python class of
  the object (\<open>type(pokemon)\<close>), as its index in \<open>POKE_LIST\<close>; evolution changes the
  name, never the class.
\<close>

record Pokemon =
  health :: rat
  level :: int
  poketype :: PokeType
  battle_power :: rat
  evolution_line :: "string list"
  name :: string
  experience :: int
  defence :: rat
  speed :: rat
  species :: nat

text \<open>
  \<open>TypeEffectiveness.EFFECT_TABLE\<close> is read from a CSV file that is not part of the
  sources; every function that consults it takes the table as its first argument
  \<open>E\<close> (row: attacking type, column: defending type).
\<close>

type_synonym effect_table = "PokeType \<Rightarrow> PokeType \<Rightarrow> rat"

text \<open>The local variable \<open>damage\<close> of \<open>Pokemon.attack\<close>, before the type multiplier.\<close>

definition attack_base :: "Pokemon \<Rightarrow> Pokemon \<Rightarrow> rat" where
  "attack_base self other_pokemon =
     (if defence other_pokemon < battle_power self / 2
        then battle_power self - defence other_pokemon
      else if defence other_pokemon < battle_power self
        then of_int \<lceil>battle_power self * 5 / 8 - defence other_pokemon / 4\<rceil>
      else of_int \<lceil>battle_power self / 4\<rceil>)"

definition attack :: "effect_table \<Rightarrow> Pokemon \<Rightarrow> Pokemon \<Rightarrow> rat" where
  "attack E self other_pokemon =
     attack_base self other_pokemon * E (poketype self) (poketype other_pokemon)"

definition defend :: "Pokemon \<Rightarrow> rat \<Rightarrow> Pokemon" where
  "defend self damage =
     (let effective_damage = (if damage < defence self then damage / 2 else damage)
      in self\<lparr>health := health self - effective_damage\<rparr>)"

definition is_alive :: "Pokemon \<Rightarrow> bool" where
  "is_alive self = (health self > 0)"

text \<open>
  \<open>list.index(x)\<close>: the position of the first occurrence; Python raises
  \<open>ValueError\<close> when there is none.
\<close>

fun index_of :: "'a list \<Rightarrow> 'a \<Rightarrow> nat option" where
  "index_of [] x = None"
| "index_of (y # ys) x =
     (if y = x then Some 0 else (case index_of ys x of None \<Rightarrow> None | Some i \<Rightarrow> Some (Suc i)))"

definition apply_multiplier :: "Pokemon \<Rightarrow> rat \<Rightarrow> Pokemon" where
  "apply_multiplier self multiplier =
     self\<lparr>battle_power := battle_power self * multiplier,
          health := health self * multiplier,
          speed := speed self * multiplier,
          defence := defence self * multiplier\<rparr>"

text \<open>
  \<open>Pokemon._evolve\<close>: the name becomes the entry after the first occurrence of the
  current name, then \<open>evolution_line.pop(0)\<close> removes the entry at index 0, then
  every combat statistic is multiplied by 1.5.
\<close>

definition evolve :: "Pokemon \<Rightarrow> error + Pokemon" where
  "evolve self =
     (case index_of (evolution_line self) (name self) of
        None \<Rightarrow> Inl ValueError
      | Some i \<Rightarrow>
          let new_name_index = i + 1 in
          if new_name_index < length (evolution_line self)
          then Inr (apply_multiplier
                 (self\<lparr>name := evolution_line self ! new_name_index,
                       evolution_line := tl (evolution_line self)\<rparr>) (3 / 2))
          else Inl IndexError)"

text \<open>
  \<open>Pokemon.level_up\<close>. The level is incremented first; the test
  \<open>len(evolution_line) > 0 and evolution_line.index(name) != len(evolution_line) - 1\<close>
  raises \<open>ValueError\<close> when the line is not empty and does not hold the name. No
  caller catches the exception, so the object it leaves behind (with the level
  already incremented) is never read again and the model returns the error alone.
\<close>

definition level_up :: "Pokemon \<Rightarrow> error + Pokemon" where
  "level_up self =
     (let self1 = self\<lparr>level := level self + 1\<rparr> in
      if length (evolution_line self1) > 0 then
        (case index_of (evolution_line self1) (name self1) of
           None \<Rightarrow> Inl ValueError
         | Some i \<Rightarrow>
             if int i \<noteq> int (length (evolution_line self1)) - 1 then evolve self1
             else Inr self1)
      else Inr self1)"

section \<open>Damage of one attack (battle.py)\<close>

text \<open>
  \<open>Battle._calculate_attack_damage\<close>:
  \<open>math.ceil(attacker.attack(defender) * (attacker_completion / defender_completion))\<close>.
  The division raises \<open>ZeroDivisionError\<close> when the defender's completion is 0.
\<close>

definition calculate_attack_damage ::
  "effect_table \<Rightarrow> Pokemon \<Rightarrow> Pokemon \<Rightarrow> rat \<Rightarrow> rat \<Rightarrow> error + int" where
  "calculate_attack_damage E attacker defender attacker_pokedex_completion
       defender_pokedex_completion =
     (if defender_pokedex_completion = 0 then Inl ZeroDivisionError
      else Inr \<lceil>attack E attacker defender *
                 (attacker_pokedex_completion / defender_pokedex_completion)\<rceil>)"



section \<open>Team containers\<close>

text \<open>
  Errors of the model are values: a function that can raise returns \<open>error + 'a\<close>
  and \<open>bind_err\<close> sequences two such steps, the first error ending the run.
\<close>

definition bind_err :: "error + 'a \<Rightarrow> ('a \<Rightarrow> error + 'b) \<Rightarrow> error + 'b" where
  "bind_err m f = (case m of Inl e \<Rightarrow> Inl e | Inr x \<Rightarrow> f x)"

text \<open>
  Objects live in a store: a combatant is named by its address (a \<open>nat\<close>) and the
  containers hold addresses, so a combatant that sits in a container and is damaged
  afterwards is the same combatant, as in Python.
\<close>

type_synonym heap = "nat \<Rightarrow> Pokemon"

text \<open>\<open>ListItem(value, key)\<close> of the sorted list: the combatant and its sort key.\<close>

datatype ListItem = ListItem (item_value: nat) (key: rat)

text \<open>
  Modelled from the spec: the classes \<open>ArrayR\<close>, \<open>ArrayStack\<close>, \<open>CircularQueue\<close>
  and \<open>ArraySortedList\<close> of the package \<open>data_structures\<close> are not among the
  sources. Section 4.1 of the specification gives their contract: King-of-the-Hill
  is LIFO (take-next pops the top, return pushes on top), Rotation is FIFO (take-next
  dequeues the front, return enqueues at the back), Ranked is a dense array kept
  sorted ascending by key (take-next removes index 0, return inserts at the position
  a binary search finds). A stack is written top first, a queue front first, and
  \<open>ArrayR\<close> is the plain array a team holds before it is assembled. No operation of
  the contract fails for lack of room: a battle returns a combatant only after it
  took one out.
\<close>

datatype container =
  ArrayR "nat list"
  | ArrayStack "nat list"
  | CircularQueue "nat list"
  | ArraySortedList "ListItem list"

fun len :: "container \<Rightarrow> nat" where
  "len (ArrayR xs) = length xs"
| "len (ArrayStack xs) = length xs"
| "len (CircularQueue xs) = length xs"
| "len (ArraySortedList xs) = length xs"

text \<open>The addresses a container holds, in take-next order.\<close>

fun members :: "container \<Rightarrow> nat list" where
  "members (ArrayR xs) = xs"
| "members (ArrayStack xs) = xs"
| "members (CircularQueue xs) = xs"
| "members (ArraySortedList xs) = map item_value xs"

text \<open>
  Modelled from the spec: the binary search of \<open>ArraySortedList.add\<close> ("insert
  maintaining sort order via binary search for position"). \<open>low\<close> and \<open>high\<close> bound
  the search; a key equal to the one at \<open>mid\<close> ends it there, which is the best case
  the complexity notes of \<open>assign_team\<close> and \<open>_check_alive\<close> describe ("the key of
  the pokemon added is always equal to the key in the middle of the array", in
  constant time). \<open>index_to_add\<close> starts the search at 0 and length - 1, so \<open>mid\<close>
  always is an index of the list.
\<close>

function index_to_add_loop :: "ListItem list \<Rightarrow> rat \<Rightarrow> int \<Rightarrow> int \<Rightarrow> nat" where
  "index_to_add_loop xs k low high =
     (if low \<le> high then
        (let mid = (low + high) div 2 in
         if key (xs ! nat mid) < k then index_to_add_loop xs k (mid + 1) high
         else if key (xs ! nat mid) > k then index_to_add_loop xs k low (mid - 1)
         else nat mid)
      else nat low)"
  by pat_completeness auto
termination
  by (relation "measure (\<lambda>(xs, k, low, high). nat (high - low + 1))") auto

declare index_to_add_loop.simps [simp del]

definition index_to_add :: "ListItem list \<Rightarrow> ListItem \<Rightarrow> nat" where
  "index_to_add xs item = index_to_add_loop xs (key item) 0 (int (length xs) - 1)"

definition add :: "ListItem list \<Rightarrow> ListItem \<Rightarrow> ListItem list" where
  "add xs item =
     (let position = index_to_add xs item
      in take position xs @ [item] @ drop position xs)"

datatype item = Poke nat | Item ListItem

text \<open>
  \<open>Battle._get_next_pokemon\<close>: \<open>pop\<close>, \<open>serve\<close> or \<open>delete_at_index(0)\<close> by the class
  of the container, \<open>TypeError\<close> for any other class. Taking from an empty container
  raises in the data structure.
\<close>

fun get_next_pokemon :: "container \<Rightarrow> error + (item \<times> container)" where
  "get_next_pokemon (ArrayStack []) = Inl IndexError"
| "get_next_pokemon (ArrayStack (x # xs)) = Inr (Poke x, ArrayStack xs)"
| "get_next_pokemon (CircularQueue []) = Inl IndexError"
| "get_next_pokemon (CircularQueue (x # xs)) = Inr (Poke x, CircularQueue xs)"
| "get_next_pokemon (ArraySortedList []) = Inl IndexError"
| "get_next_pokemon (ArraySortedList (x # xs)) = Inr (Item x, ArraySortedList xs)"
| "get_next_pokemon (ArrayR xs) = Inl TypeError"

text \<open>
  \<open>push\<close>, \<open>append\<close> and \<open>add\<close> called on a container: a class without the method
  raises \<open>AttributeError\<close>.
\<close>

fun push :: "container \<Rightarrow> nat \<Rightarrow> error + container" where
  "push (ArrayStack xs) p = Inr (ArrayStack (p # xs))"
| "push c p = Inl AttributeError"

fun append_queue :: "container \<Rightarrow> nat \<Rightarrow> error + container" where
  "append_queue (CircularQueue xs) p = Inr (CircularQueue (xs @ [p]))"
| "append_queue c p = Inl AttributeError"

fun add_item :: "container \<Rightarrow> ListItem \<Rightarrow> error + container" where
  "add_item (ArraySortedList xs) i = Inr (ArraySortedList (add xs i))"
| "add_item c i = Inl AttributeError"

section \<open>Teams and trainers (poke\_team.py)\<close>

datatype BattleMode = SET | ROTATE | OPTIMISE

text \<open>\<open>PokeTeam.CRITERION_LIST\<close>: the attributes a team can be ordered by.\<close>

datatype Criterion = Health | Defence | Battle_power | Speed | Level

fun getattr :: "Pokemon \<Rightarrow> Criterion \<Rightarrow> rat" where
  "getattr p Health = health p"
| "getattr p Defence = defence p"
| "getattr p Battle_power = battle_power p"
| "getattr p Speed = speed p"
| "getattr p Level = of_int (level p)"

record PokeTeam =
  team :: container
  team_memory :: "nat list option"
  team_count :: nat
  special_counter :: nat

text \<open>
  A trainer: the team and the Pokedex, the set of types seen (a \<open>BSet\<close> of the type
  numbers in the source).
\<close>

record Trainer =
  trainer_name :: string
  poke_team :: PokeTeam
  pokedex :: "PokeType set"

definition register_pokemon :: "Trainer \<Rightarrow> Pokemon \<Rightarrow> Trainer" where
  "register_pokemon self pokemon = self\<lparr>pokedex := insert (poketype pokemon) (pokedex self)\<rparr>"

text \<open>
  Python's \<open>round(x, 2)\<close>, on exact rationals: to the nearest hundredth, a tie going
  to the even neighbour.
\<close>

definition round2 :: "rat \<Rightarrow> rat" where
  "round2 x =
     (let y = x * 100; f = \<lfloor>y\<rfloor>; r = y - of_int f
      in of_int (if r < 1 / 2 then f else if 1 / 2 < r then f + 1
                 else if even f then f else f + 1) / 100)"

text \<open>\<open>Trainer.get_pokedex_completion\<close>: \<open>round(len(pokedex) / len(PokeType), 2)\<close>.\<close>

definition get_pokedex_completion :: "Trainer \<Rightarrow> rat" where
  "get_pokedex_completion self = round2 (of_nat (card (pokedex self)) / 15)"

text \<open>
  \<open>PokeTeam.assign_team\<close>: every combatant of the array is added to a new sorted
  list under the key \<open>getattr(pokemon, criterion)\<close>. A criterion outside
  \<open>CRITERION_LIST\<close> (here \<open>None\<close>, the default of \<open>regenerate_team\<close>) raises
  \<open>ValueError\<close> in the first round of the loop; a team that is not an \<open>ArrayR\<close>
  raises \<open>TypeError\<close>.
\<close>

definition assign_team :: "heap \<Rightarrow> PokeTeam \<Rightarrow> Criterion option \<Rightarrow> error + PokeTeam" where
  "assign_team h self criterion =
     (case team self of
        ArrayR xs \<Rightarrow>
          (case criterion of
             None \<Rightarrow> if xs = [] then Inr (self\<lparr>team := ArraySortedList []\<rparr>) else Inl ValueError
           | Some c \<Rightarrow>
               Inr (self\<lparr>team := ArraySortedList
                      (foldl (\<lambda>l pokemon. add l (ListItem pokemon (getattr (h pokemon) c))) [] xs)\<rparr>))
      | _ \<Rightarrow> Inl TypeError)"

text \<open>
  \<open>PokeTeam.assemble_team\<close>: the array is pushed onto a stack (mode value 0),
  appended to a queue (1) or handed to \<open>assign_team\<close> (2).
\<close>

definition assemble_team ::
  "heap \<Rightarrow> PokeTeam \<Rightarrow> BattleMode \<Rightarrow> Criterion option \<Rightarrow> error + PokeTeam" where
  "assemble_team h self battle_mode criterion =
     (case team self of
        ArrayR xs \<Rightarrow>
          (case battle_mode of
             SET \<Rightarrow> Inr (self\<lparr>team := ArrayStack (foldl (\<lambda>st pokemon. pokemon # st) [] xs)\<rparr>)
           | ROTATE \<Rightarrow> Inr (self\<lparr>team := CircularQueue (foldl (\<lambda>q pokemon. q @ [pokemon]) [] xs)\<rparr>)
           | OPTIMISE \<Rightarrow> assign_team h self criterion)
      | _ \<Rightarrow> Inl TypeError)"

text \<open>
  The loops of \<open>PokeTeam.special\<close>. Each moves \<open>n\<close> elements from a source to a
  destination. \<open>pop\<close> takes the top of a stack and \<open>serve\<close> the front of a queue,
  both the head of the list: \<open>pop_push\<close> takes \<open>n\<close> elements and pushes each onto the
  stack \<open>dst\<close>, \<open>serve_append\<close> takes \<open>n\<close> elements and appends each to the queue
  \<open>dst\<close>.
\<close>

fun pop_push :: "nat \<Rightarrow> nat list \<Rightarrow> nat list \<Rightarrow> nat list \<times> nat list" where
  "pop_push (Suc n) (x # src) dst = pop_push n src (x # dst)"
| "pop_push n src dst = (src, dst)"

fun serve_append :: "nat \<Rightarrow> nat list \<Rightarrow> nat list \<Rightarrow> nat list \<times> nat list" where
  "serve_append (Suc n) (x # src) dst = serve_append n src (dst @ [x])"
| "serve_append n src dst = (src, dst)"

text \<open>\<open>update_pokemon.key *= -1\<close> on a \<open>ListItem\<close>.\<close>

definition negated :: "ListItem \<Rightarrow> ListItem" where
  "negated i = ListItem (item_value i) (key i * - 1)"

text \<open>
  The loop of the OPTIMISE branch: \<open>delete_at_index(0)\<close>, \<open>key *= -1\<close>, \<open>add\<close> to the
  temporary list, once per element.
\<close>

fun negate_keys :: "nat \<Rightarrow> ListItem list \<Rightarrow> ListItem list \<Rightarrow> ListItem list" where
  "negate_keys (Suc n) (update_pokemon # rest) temp_asl =
     negate_keys n rest (add temp_asl (negated update_pokemon))"
| "negate_keys n rest temp_asl = temp_asl"

text \<open>
  \<open>PokeTeam.special\<close> branches on the battle mode, not on the class of the team.
  SET reverses the upper half of the stack through two helper stacks, ROTATE
  reverses the rear half of the queue through a stack, OPTIMISE negates every key and
  rebuilds the sorted list. A team of another class raises \<open>AttributeError\<close> at the
  first \<open>pop\<close>, \<open>serve\<close> or \<open>delete_at_index\<close>, when a loop that calls one runs at
  all. Every branch that returns adds one to \<open>special_counter\<close>.
\<close>

definition special :: "PokeTeam \<Rightarrow> BattleMode \<Rightarrow> error + PokeTeam" where
  "special self battle_mode =
     (case battle_mode of
        SET \<Rightarrow>
          (case team self of
             ArrayStack s1 \<Rightarrow>
               (let (s1a, s2) = pop_push (length s1 div 2) s1 [];
                    (s2a, s3) = pop_push (length s2) s2 [];
                    (s3a, s1b) = pop_push (length s3) s3 s1a
                in Inr (self\<lparr>team := ArrayStack s1b, special_counter := special_counter self + 1\<rparr>))
           | c \<Rightarrow> if len c div 2 > 0 then Inl AttributeError
                  else Inr (self\<lparr>special_counter := special_counter self + 1\<rparr>))
      | ROTATE \<Rightarrow>
          (case team self of
             CircularQueue s1 \<Rightarrow>
               (let (s1a, s3) = serve_append (length s1 div 2) s1 [];
                    (s1b, s2) = pop_push (length s1a) s1a [];
                    (s2a, s3a) = serve_append (length s2) s2 s3;
                    (s3b, s1c) = serve_append (length s3a) s3a s1b
                in Inr (self\<lparr>team := CircularQueue s1c, special_counter := special_counter self + 1\<rparr>))
           | c \<Rightarrow> if len c > 0 then Inl AttributeError
                  else Inr (self\<lparr>special_counter := special_counter self + 1\<rparr>))
      | OPTIMISE \<Rightarrow>
          (case team self of
             ArraySortedList xs \<Rightarrow>
               Inr (self\<lparr>team := ArraySortedList (negate_keys (length xs) xs []),
                         special_counter := special_counter self + 1\<rparr>)
           | c \<Rightarrow> if len c > 0 then Inl AttributeError
                  else Inr (self\<lparr>team := ArraySortedList [],
                                 special_counter := special_counter self + 1\<rparr>)))"

text \<open>
  \<open>PokeTeam.regenerate_team\<close>. \<open>POKE_HEALTH\<close>, the baseline health of every
  species, comes from the catalogue \<open>pokemon.py\<close>, which is not among the sources:
  it is the argument \<open>poke_health\<close>, indexed by species. The loop resets the health of
  every combatant of \<open>team_memory\<close>; then the team becomes \<open>team_memory\<close>, is
  assembled again, and \<open>special\<close> is replayed when the counter is odd. A team that
  never chose its combatants has \<open>team_memory = None\<close>, and iterating it raises
  \<open>TypeError\<close>.
\<close>

definition regenerate_team ::
  "(nat \<Rightarrow> rat) \<Rightarrow> heap \<Rightarrow> PokeTeam \<Rightarrow> BattleMode \<Rightarrow> Criterion option
     \<Rightarrow> error + (heap \<times> PokeTeam)" where
  "regenerate_team poke_health h self battle_mode criterion =
     (case team_memory self of
        None \<Rightarrow> Inl TypeError
      | Some memory \<Rightarrow>
          (let h1 = foldl (\<lambda>hp pokemon.
                      hp(pokemon := (hp pokemon)\<lparr>health := poke_health (species (hp pokemon))\<rparr>))
                    h memory;
               self1 = self\<lparr>team := ArrayR memory\<rparr>
           in bind_err (assemble_team h1 self1 battle_mode criterion)
                (\<lambda>self2.
                   if special_counter self2 mod 2 = 1
                   then bind_err (special self2 battle_mode) (\<lambda>self3. Inr (h1, self3))
                   else Inr (h1, self2))))"

text \<open>
  The end of \<open>PokeTeam.choose_manually\<close>: the combatants typed in are created
  (the model takes their addresses, \<open>chosen\<close>) into a new array, \<open>team_count\<close>
  grows by one for each, the array becomes \<open>team\<close>, and \<open>team_memory\<close> is bound to
  the same array. \<open>choose_randomly\<close> ends alike, with \<open>team_memory = team\<close>. No
  function of the sources writes to that array afterwards: \<open>assemble_team\<close> reads it
  and binds \<open>team\<close> to a new container.
\<close>

definition choose_manually :: "PokeTeam \<Rightarrow> nat list \<Rightarrow> PokeTeam" where
  "choose_manually self chosen =
     self\<lparr>team := ArrayR chosen, team_memory := Some chosen,
          team_count := team_count self + length chosen\<rparr>"

text \<open>
  \<open>Trainer.pick_team\<close> with the method \<open>manual\<close>: the team chooses its combatants,
  then the trainer registers each of them in the Pokedex.
\<close>

definition pick_team :: "heap \<Rightarrow> Trainer \<Rightarrow> nat list \<Rightarrow> Trainer" where
  "pick_team h self chosen =
     foldl (\<lambda>t pokemon. register_pokemon t (h pokemon))
       (self\<lparr>poke_team := choose_manually (poke_team self) chosen\<rparr>) chosen"

section \<open>The battle (battle.py)\<close>

datatype side = Side1 | Side2

text \<open>
  A \<open>Battle\<close> object. \<open>winner_trainer\<close> names the winning trainer by its side;
  \<open>__init__\<close> sets it to \<open>None\<close>. The criterion is one of \<open>CRITERION_LIST\<close>.
\<close>

record Battle =
  trainer_1 :: Trainer
  trainer_2 :: Trainer
  battle_mode :: BattleMode
  criterion :: Criterion
  winner_trainer :: "side option"

definition init_Battle :: "Trainer \<Rightarrow> Trainer \<Rightarrow> BattleMode \<Rightarrow> Criterion \<Rightarrow> Battle" where
  "init_Battle t1 t2 mode crit =
     \<lparr>trainer_1 = t1, trainer_2 = t2, battle_mode = mode, criterion = crit,
      winner_trainer = None\<rparr>"

fun trainer_of :: "Battle \<Rightarrow> side \<Rightarrow> Trainer" where
  "trainer_of b Side1 = trainer_1 b"
| "trainer_of b Side2 = trainer_2 b"

fun opponent :: "side \<Rightarrow> side" where
  "opponent Side1 = Side2"
| "opponent Side2 = Side1"

text \<open>
  The local variables \<open>t1_team\<close> and \<open>t2_team\<close> of the battle are the container
  objects of the two teams, changed in place: reading one is reading the team of
  that side, writing one is updating it.
\<close>

definition team_of :: "Battle \<Rightarrow> side \<Rightarrow> container" where
  "team_of b s = team (poke_team (trainer_of b s))"

fun set_team :: "Battle \<Rightarrow> side \<Rightarrow> container \<Rightarrow> Battle" where
  "set_team b Side1 c = b\<lparr>trainer_1 := (trainer_1 b)\<lparr>poke_team := (poke_team (trainer_1 b))\<lparr>team := c\<rparr>\<rparr>\<rparr>"
| "set_team b Side2 c = b\<lparr>trainer_2 := (trainer_2 b)\<lparr>poke_team := (poke_team (trainer_2 b))\<lparr>team := c\<rparr>\<rparr>\<rparr>"

text \<open>
  The block that sends a combatant back to a team, written out five times in the
  source: \<open>isinstance\<close> picks \<open>push\<close>, \<open>append\<close> or \<open>add\<close> by the class of the
  container \<open>dispatch_on\<close> and calls it on \<open>target\<close>; for the sorted list the key is
  \<open>getattr(pokemon, criterion)\<close>, negated when the team's \<open>special_counter\<close> is odd.
  \<open>_check_alive\<close> dispatches on the container it writes; \<open>_sudden_death\<close> always
  dispatches on \<open>t1_team\<close>, also when it writes \<open>t2_team\<close>.
\<close>

definition send_back ::
  "container \<Rightarrow> container \<Rightarrow> heap \<Rightarrow> Criterion \<Rightarrow> nat \<Rightarrow> nat \<Rightarrow> error + container" where
  "send_back dispatch_on target h crit counter pokemon =
     (case dispatch_on of
        ArrayStack _ \<Rightarrow> push target pokemon
      | CircularQueue _ \<Rightarrow> append_queue target pokemon
      | ArraySortedList _ \<Rightarrow>
          if counter mod 2 = 0
          then add_item target (ListItem pokemon (getattr (h pokemon) crit))
          else add_item target (ListItem pokemon (getattr (h pokemon) crit * - 1))
      | ArrayR _ \<Rightarrow> Inl TypeError)"

text \<open>
  \<open>Battle._check_alive(attacker, defender, attacker_team, attacker_poketeam)\<close>; the
  last two arguments are always the container and the team of the attacker's side,
  here \<open>s\<close>. When the defender is not alive the attacker levels up and is sent back.
\<close>

definition check_alive ::
  "heap \<Rightarrow> Battle \<Rightarrow> nat \<Rightarrow> nat \<Rightarrow> side \<Rightarrow> error + (heap \<times> Battle)" where
  "check_alive h b attacker defender s =
     (if \<not> is_alive (h defender) then
        bind_err (level_up (h attacker))
          (\<lambda>levelled.
             let h1 = h(attacker := levelled) in
             bind_err (send_back (team_of b s) (team_of b s) h1 (criterion b)
                         (special_counter (poke_team (trainer_of b s))) attacker)
               (\<lambda>c. Inr (h1, set_team b s c)))
      else Inr (h, b))"

text \<open>\<open>Battle._sudden_death\<close>.\<close>

definition sudden_death ::
  "heap \<Rightarrow> Battle \<Rightarrow> nat \<Rightarrow> nat \<Rightarrow> error + (heap \<times> Battle)" where
  "sudden_death h b t1_pokemon t2_pokemon =
     (let h1 = h(t1_pokemon := (h t1_pokemon)\<lparr>health := health (h t1_pokemon) - 1\<rparr>);
          h2 = h1(t2_pokemon := (h1 t2_pokemon)\<lparr>health := health (h1 t2_pokemon) - 1\<rparr>);
          t1_team = team_of b Side1;
          t2_team = team_of b Side2
      in
      if is_alive (h2 t1_pokemon) \<and> is_alive (h2 t2_pokemon) then
        bind_err (send_back t1_team t1_team h2 (criterion b)
                    (special_counter (poke_team (trainer_1 b))) t1_pokemon)
          (\<lambda>c1. bind_err (send_back t1_team t2_team h2 (criterion b)
                            (special_counter (poke_team (trainer_2 b))) t2_pokemon)
             (\<lambda>c2. Inr (h2, set_team (set_team b Side1 c1) Side2 c2)))
      else if is_alive (h2 t1_pokemon) then
        bind_err (level_up (h2 t1_pokemon))
          (\<lambda>levelled.
             let h3 = h2(t1_pokemon := levelled) in
             bind_err (send_back t1_team t1_team h3 (criterion b)
                         (special_counter (poke_team (trainer_1 b))) t1_pokemon)
               (\<lambda>c1. Inr (h3, set_team b Side1 c1)))
      else if is_alive (h2 t2_pokemon) then
        bind_err (level_up (h2 t2_pokemon))
          (\<lambda>levelled.
             let h3 = h2(t2_pokemon := levelled) in
             bind_err (send_back t1_team t2_team h3 (criterion b)
                         (special_counter (poke_team (trainer_2 b))) t2_pokemon)
               (\<lambda>c2. Inr (h3, set_team b Side2 c2)))
      else Inr (h2, b))"

text \<open>
  One attack as \<open>_battle_round\<close> writes it, six times: the damage is computed with
  the attacker's trainer's completion over the defender's trainer's, the defender
  defends, and \<open>_check_alive\<close> runs for the attacker's side \<open>s\<close>.
\<close>

definition attack_defend ::
  "effect_table \<Rightarrow> heap \<Rightarrow> Battle \<Rightarrow> nat \<Rightarrow> nat \<Rightarrow> side \<Rightarrow> error + (heap \<times> Battle)" where
  "attack_defend E h b attacker defender s =
     bind_err (calculate_attack_damage E (h attacker) (h defender)
                 (get_pokedex_completion (trainer_of b s))
                 (get_pokedex_completion (trainer_of b (opponent s))))
       (\<lambda>attack_damage.
          check_alive (h(defender := defend (h defender) (of_int attack_damage)))
            b attacker defender s)"

text \<open>The test \<open>t1_pokemon.get_health() > 0 and t2_pokemon.get_health() > 0\<close> and the call it guards.\<close>

definition sudden_death_if_both_alive ::
  "heap \<Rightarrow> Battle \<Rightarrow> nat \<Rightarrow> nat \<Rightarrow> error + (heap \<times> Battle)" where
  "sudden_death_if_both_alive h b t1_pokemon t2_pokemon =
     (if health (h t1_pokemon) > 0 \<and> health (h t2_pokemon) > 0
      then sudden_death h b t1_pokemon t2_pokemon
      else Inr (h, b))"

text \<open>\<open>Battle._battle_round\<close>: the faster combatant attacks first; at equal speed both attack.\<close>

definition battle_round ::
  "effect_table \<Rightarrow> heap \<Rightarrow> Battle \<Rightarrow> nat \<Rightarrow> nat \<Rightarrow> error + (heap \<times> Battle)" where
  "battle_round E h b t1_pokemon t2_pokemon =
     (if speed (h t1_pokemon) > speed (h t2_pokemon) then
        bind_err (attack_defend E h b t1_pokemon t2_pokemon Side1)
          (\<lambda>(h1, b1).
             if is_alive (h1 t2_pokemon) then
               bind_err (attack_defend E h1 b1 t2_pokemon t1_pokemon Side2)
                 (\<lambda>(h2, b2). sudden_death_if_both_alive h2 b2 t1_pokemon t2_pokemon)
             else Inr (h1, b1))
      else if speed (h t2_pokemon) > speed (h t1_pokemon) then
        bind_err (attack_defend E h b t2_pokemon t1_pokemon Side2)
          (\<lambda>(h1, b1).
             if is_alive (h1 t1_pokemon) then
               bind_err (attack_defend E h1 b1 t1_pokemon t2_pokemon Side1)
                 (\<lambda>(h2, b2). sudden_death_if_both_alive h2 b2 t1_pokemon t2_pokemon)
             else Inr (h1, b1))
      else if speed (h t1_pokemon) = speed (h t2_pokemon) then
        bind_err (attack_defend E h b t1_pokemon t2_pokemon Side1)
          (\<lambda>(h1, b1).
             bind_err (attack_defend E h1 b1 t2_pokemon t1_pokemon Side2)
               (\<lambda>(h2, b2). sudden_death_if_both_alive h2 b2 t1_pokemon t2_pokemon))
      else Inr (h, b))"

text \<open>
  The body of the loop of \<open>_conduct_battle\<close> once both teams are known to be
  non-empty: take the next combatant of each side, register each in the other
  trainer's Pokedex, fight one round. In mode SET and ROTATE the object taken is
  used as a combatant, so a \<open>ListItem\<close> raises \<open>AttributeError\<close> at
  \<open>get_poketype\<close>; in mode OPTIMISE its \<open>.value\<close> is read, so a bare combatant
  raises \<open>AttributeError\<close>.
\<close>

definition next_round :: "effect_table \<Rightarrow> heap \<Rightarrow> Battle \<Rightarrow> error + (heap \<times> Battle)" where
  "next_round E h b =
     bind_err (get_next_pokemon (team_of b Side1))
       (\<lambda>(i1, c1).
          bind_err (get_next_pokemon (team_of (set_team b Side1 c1) Side2))
            (\<lambda>(i2, c2).
               let b1 = set_team (set_team b Side1 c1) Side2 c2 in
               (case battle_mode b of
                  OPTIMISE \<Rightarrow>
                    (case (i1, i2) of
                       (Item l1, Item l2) \<Rightarrow>
                         let b2 = b1\<lparr>trainer_1 := register_pokemon (trainer_1 b1) (h (item_value l2))\<rparr>;
                             b3 = b2\<lparr>trainer_2 := register_pokemon (trainer_2 b2) (h (item_value l1))\<rparr>
                         in battle_round E h b3 (item_value l1) (item_value l2)
                     | _ \<Rightarrow> Inl AttributeError)
                | _ \<Rightarrow>
                    (case (i1, i2) of
                       (Poke p1, Poke p2) \<Rightarrow>
                         let b2 = b1\<lparr>trainer_1 := register_pokemon (trainer_1 b1) (h p2)\<rparr>;
                             b3 = b2\<lparr>trainer_2 := register_pokemon (trainer_2 b2) (h p1)\<rparr>
                         in battle_round E h b3 p1 p2
                     | _ \<Rightarrow> Inl AttributeError))))"

text \<open>
  \<open>Battle._conduct_battle\<close>. The \<open>while\<close> loop has no bound in the source; the
  model counts its iterations down from \<open>fuel\<close> and answers \<open>None\<close> when the fuel
  runs out before the loop ends. \<open>Some (Inl e)\<close> is an exception, \<open>Some (Inr (h, b))\<close>
  a normal return with the final store and battle.
\<close>

fun conduct_battle ::
  "effect_table \<Rightarrow> nat \<Rightarrow> heap \<Rightarrow> Battle \<Rightarrow> (error + (heap \<times> Battle)) option" where
  "conduct_battle E 0 h b = None"
| "conduct_battle E (Suc fuel) h b =
     (if len (team_of b Side1) \<noteq> 0 \<or> len (team_of b Side2) \<noteq> 0 then
        if len (team_of b Side1) = 0 then Some (Inr (h, b\<lparr>winner_trainer := Some Side2\<rparr>))
        else if len (team_of b Side2) = 0 then Some (Inr (h, b\<lparr>winner_trainer := Some Side1\<rparr>))
        else (case next_round E h b of
                Inl e \<Rightarrow> Some (Inl e)
              | Inr (h1, b1) \<Rightarrow> conduct_battle E fuel h1 b1)
      else Some (Inr (h, b)))"

text \<open>
  \<open>Battle.commence_battle\<close>: the mode is one of the three, so the battle is
  conducted and \<open>self.winner_trainer\<close> is returned, here with the final state.
\<close>

definition commence_battle ::
  "effect_table \<Rightarrow> nat \<Rightarrow> heap \<Rightarrow> Battle \<Rightarrow> (error + (side option \<times> heap \<times> Battle)) option" where
  "commence_battle E fuel h self =
     (case conduct_battle E fuel h self of
        None \<Rightarrow> None
      | Some (Inl e) \<Rightarrow> Some (Inl e)
      | Some (Inr (h1, b1)) \<Rightarrow> Some (Inr (winner_trainer b1, h1, b1)))"

section \<open>Example data\<close>

text \<open>
  The two combatants of the end-to-end scenario of the specification (section 8) and
  its table entry FIRE against WATER = 0.5; every other entry of the example table
  is 1.
\<close>

definition example_A :: Pokemon where
  "example_A = \<lparr>health = 100, level = 1, poketype = FIRE, battle_power = 50,
     evolution_line = [''A1'', ''A2''], name = ''A1'', experience = 0, defence = 10,
     speed = 20, species = 0\<rparr>"

definition example_B :: Pokemon where
  "example_B = \<lparr>health = 100, level = 1, poketype = WATER, battle_power = 30,
     evolution_line = [''B1''], name = ''B1'', experience = 0, defence = 40,
     speed = 10, species = 1\<rparr>"

definition example_E :: effect_table where
  "example_E a d = (if a = FIRE \<and> d = WATER then 1 / 2 else 1)"

text \<open>A combatant created at the middle stage of a three-stage evolution line.\<close>

definition example_mid :: Pokemon where
  "example_mid = \<lparr>health = 20, level = 1, poketype = GRASS, battle_power = 10,
     evolution_line = [''Bulbasaur'', ''Ivysaur'', ''Venusaur''], name = ''Ivysaur'',
     experience = 0, defence = 8, speed = 6, species = 2\<rparr>"

text \<open>Two more combatants: a strong one that faints at the first hit, and a weak slow one.\<close>

definition example_C :: Pokemon where
  "example_C = \<lparr>health = 5, level = 1, poketype = NORMAL, battle_power = 50,
     evolution_line = [''C1''], name = ''C1'', experience = 0, defence = 10,
     speed = 20, species = 3\<rparr>"

definition example_D :: Pokemon where
  "example_D = \<lparr>health = 5, level = 1, poketype = NORMAL, battle_power = 30,
     evolution_line = [''D1''], name = ''D1'', experience = 0, defence = 10,
     speed = 10, species = 4\<rparr>"

text \<open>The baseline health of the example species, in the order of their numbers.\<close>

definition example_health :: "nat \<Rightarrow> rat" where
  "example_health sp = (if sp = 0 then 100 else if sp = 1 then 100 else 5)"

text \<open>
  A team before any combatant is chosen (the empty slots of its array are not
  listed), and a trainer who picked the combatants at the addresses \<open>chosen\<close> and
  whose team \<open>Battle._pick_team\<close> then assembled for a mode under the criterion
  \<open>health\<close>.
\<close>

definition example_unchosen :: PokeTeam where
  "example_unchosen =
     \<lparr>team = ArrayR [], team_memory = None, team_count = 0, special_counter = 0\<rparr>"

definition example_trainer :: "heap \<Rightarrow> nat list \<Rightarrow> BattleMode \<Rightarrow> Trainer" where
  "example_trainer h chosen mode =
     (let t = pick_team h \<lparr>trainer_name = ''trainer'', poke_team = example_unchosen,
                             pokedex = {}\<rparr> chosen
      in t\<lparr>poke_team :=
             (case assemble_team h (poke_team t) mode (Some Health) of
                Inr pt \<Rightarrow> pt
              | Inl e \<Rightarrow> poke_team t)\<rparr>)"

text \<open>
  Example stores and one-against-one battles: A against B, A against D, C against a
  second C (equal speed, each faints at the other's hit), and two copies of B with
  health 5 (equal speed, both faint in sudden death).
\<close>

definition heap_AB :: heap where
  "heap_AB = (\<lambda>i. example_B)(0 := example_A)"

definition heap_AD :: heap where
  "heap_AD = (\<lambda>i. example_D)(0 := example_A)"

definition heap_CC :: heap where
  "heap_CC = (\<lambda>i. example_C)"

definition heap_BB :: heap where
  "heap_BB = (\<lambda>i. example_B\<lparr>health := 5\<rparr>)"

definition example_battle :: "heap \<Rightarrow> BattleMode \<Rightarrow> Battle" where
  "example_battle h mode =
     init_Battle (example_trainer h [0] mode) (example_trainer h [1] mode) mode Health"

text \<open>Four combatants of level 1, for a team ranked by level.\<close>

definition example_team4 :: PokeTeam where
  "example_team4 =
     (case assign_team heap_CC (choose_manually example_unchosen [0, 1, 2, 3]) (Some Level) of
        Inr t \<Rightarrow> t
      | Inl e \<Rightarrow> example_unchosen)"

text \<open>
  The battle of two chosen combatants in mode SET in the middle of a round: both
  were taken from their stacks and registered in the other trainer's Pokedex.
\<close>

definition example_in_round :: "heap \<Rightarrow> Battle" where
  "example_in_round h =
     (let b1 = set_team (set_team (example_battle h SET) Side1 (ArrayStack [])) Side2
                 (ArrayStack []);
          b2 = b1\<lparr>trainer_1 := register_pokemon (trainer_1 b1) (h 1)\<rparr>
      in b2\<lparr>trainer_2 := register_pokemon (trainer_2 b2) (h 0)\<rparr>)"

text \<open>
  The state in which the battle of C against C turns in circles: each team's stack
  holds its one combatant, and both combatants are as \<open>example_C\<close> but for a health
  of at most 5 and any level.
\<close>

definition like_C :: "Pokemon \<Rightarrow> bool" where
  "like_C p \<longleftrightarrow>
     health p \<le> 5 \<and> poketype p = NORMAL \<and> battle_power p = 50 \<and> defence p = 10 \<and>
     speed p = 20 \<and> evolution_line p = [''C1''] \<and> name p = ''C1''"

definition stuck :: "nat \<Rightarrow> nat \<Rightarrow> heap \<Rightarrow> Battle \<Rightarrow> bool" where
  "stuck p q h b \<longleftrightarrow>
     p \<noteq> q \<and> team_of b Side1 = ArrayStack [p] \<and> team_of b Side2 = ArrayStack [q] \<and>
     battle_mode b = SET \<and> pokedex (trainer_1 b) = {NORMAL} \<and>
     pokedex (trainer_2 b) = {NORMAL} \<and> like_C (h p) \<and> like_C (h q)"

text \<open>
  \<open>level_up\<close> returns when the evolution line is empty or holds the name
  (\<open>list.index\<close> finds it).
\<close>

definition can_level_up :: "Pokemon \<Rightarrow> bool" where
  "can_level_up p \<longleftrightarrow> evolution_line p = [] \<or> name p \<in> set (evolution_line p)"

text \<open>Two team containers of one battle mode: both stacks, both queues or both sorted lists.\<close>

fun same_class :: "container \<Rightarrow> container \<Rightarrow> bool" where
  "same_class (ArrayStack xs) (ArrayStack ys) = True"
| "same_class (CircularQueue xs) (CircularQueue ys) = True"
| "same_class (ArraySortedList xs) (ArraySortedList ys) = True"
| "same_class c d = False"

text \<open>
  The test of \<open>level_up\<close> that decides whether \<open>_evolve\<close> runs:
  \<open>len(evolution_line) > 0 and evolution_line.index(name) != len(evolution_line) - 1\<close>.
\<close>

definition evolves :: "Pokemon \<Rightarrow> bool" where
  "evolves p \<longleftrightarrow>
     evolution_line p \<noteq> [] \<and>
     index_of (evolution_line p) (name p) \<noteq> Some (length (evolution_line p) - 1)"

section \<open>Properties of a single combatant\<close>

lemma index_of_Some_iff: "(\<exists>i. index_of xs x = Some i) \<longleftrightarrow> x \<in> set xs"
  by (induction xs) (auto split: option.splits)

lemma index_of_lt: "index_of xs x = Some i \<Longrightarrow> i < length xs \<and> xs ! i = x"
  by (induction xs arbitrary: i) (auto split: option.splits if_splits)

lemma index_of_last_distinct:
  assumes d: "distinct xs" and i: "index_of xs x = Some i"
  shows "(i = length xs - 1) \<longleftrightarrow> (x = last xs)"
proof -
  from index_of_lt[OF i] have lt: "i < length xs" and at: "xs ! i = x" by auto
  hence ne: "xs \<noteq> []" by auto
  have l: "last xs = xs ! (length xs - 1)" using ne by (simp add: last_conv_nth)
  show ?thesis
  proof
    assume "i = length xs - 1" thus "x = last xs" using l at by simp
  next
    assume "x = last xs"
    hence "xs ! i = xs ! (length xs - 1)" using l at by simp
    moreover have "length xs - 1 < length xs" using ne by simp
    ultimately show "i = length xs - 1" using d lt by (simp add: nth_eq_iff_index_eq)
  qed
qed

lemma attack_base_pos:
  assumes "0 < battle_power a"
  shows "0 < attack_base a d"
proof -
  have "0 < battle_power a * 5 / 8 - defence d / 4" if "defence d < battle_power a"
    using that assms by simp
  then show ?thesis using assms
    by (auto simp: attack_base_def)
qed

lemma attack_base_ge1:
  assumes "0 < battle_power a" "battle_power a \<in> \<int>" "defence d \<in> \<int>"
  shows "1 \<le> attack_base a d"
proof -
  have p: "0 < attack_base a d" using assms(1) by (rule attack_base_pos)
  have "attack_base a d \<in> \<int>" using assms(2,3) by (auto simp: attack_base_def)
  then obtain z where z: "attack_base a d = of_int z" by (auto elim: Ints_cases)
  with p have "0 < z" by simp
  hence "1 \<le> z" by simp
  thus ?thesis using z by simp
qed

lemma defend_decreases: "0 < damage \<Longrightarrow> health (defend d damage) < health d"
  by (simp add: defend_def Let_def)



text \<open>
  C4. \<open>defend\<close> takes exactly half the damage from the health when the damage is
  below the defence and exactly the damage otherwise, changes nothing else, and does
  not clamp: the health after it is the difference, whatever its sign. \<open>is_alive\<close>
  holds exactly when the health is positive.
\<close>

theorem defend_is_alive_C4:
  "health (defend p damage) =
     health p - (if damage < defence p then damage / 2 else damage) \<and>
   defend p damage = p\<lparr>health := health (defend p damage)\<rparr> \<and>
   is_alive p = (health p > 0)"
  by (simp add: defend_def is_alive_def Let_def)

theorem defend_is_alive_C4_witness:
  "health (defend example_B 22) = 89 \<and> health (defend example_B 300) = - 200 \<and>
   \<not> is_alive (defend example_B 300) \<and> is_alive (defend example_B 22)"
  using defend_is_alive_C4 [of example_B 22] defend_is_alive_C4 [of example_B 300]
    defend_is_alive_C4 [of "defend example_B 300"] defend_is_alive_C4 [of "defend example_B 22"]
  by (simp add: example_B_def)

text \<open>
  C8, as amended. Whenever \<open>level_up\<close> returns (the evolution line is empty or holds
  the current name), the level grows by exactly 1. Evolution is triggered exactly
  when the line is not empty and the first occurrence of the name is not at its last
  index; for a line without repeated names that is: the name is not the final
  element. On evolution the name advances to the next entry, the entry at index 0
  is dropped from the line, and the four statistics are multiplied by 3/2; without
  evolution name, line and statistics stay as they are.
\<close>

theorem level_up_C8:
  assumes "evolution_line p = [] \<or> name p \<in> set (evolution_line p)"
  shows "\<exists>p'. level_up p = Inr p' \<and> level p' = level p + 1 \<and>
     (distinct (evolution_line p) \<longrightarrow>
        (evolves p \<longleftrightarrow> evolution_line p \<noteq> [] \<and> name p \<noteq> last (evolution_line p))) \<and>
     (if evolves p then
        (\<exists>i. index_of (evolution_line p) (name p) = Some i \<and>
              Suc i < length (evolution_line p) \<and>
              name p' = evolution_line p ! Suc i) \<and>
        evolution_line p' = tl (evolution_line p) \<and>
        battle_power p' = battle_power p * (3 / 2) \<and> health p' = health p * (3 / 2) \<and>
        speed p' = speed p * (3 / 2) \<and> defence p' = defence p * (3 / 2)
      else
        name p' = name p \<and> evolution_line p' = evolution_line p \<and>
        battle_power p' = battle_power p \<and> health p' = health p \<and>
        speed p' = speed p \<and> defence p' = defence p)"
proof (cases "evolution_line p = []")
  case True
  then show ?thesis by (simp add: level_up_def evolves_def)
next
  case False
  with assms have "name p \<in> set (evolution_line p)" by simp
  then obtain i where i: "index_of (evolution_line p) (name p) = Some i"
    using index_of_Some_iff by metis
  from index_of_lt[OF i] have lt: "i < length (evolution_line p)" by simp
  have dl: "distinct (evolution_line p) \<Longrightarrow>
      (i = length (evolution_line p) - 1) \<longleftrightarrow> (name p = last (evolution_line p))"
    using index_of_last_distinct[OF _ i] by simp
  show ?thesis
  proof (cases "i = length (evolution_line p) - 1")
    case True
    hence ne: "\<not> evolves p" using i by (simp add: evolves_def)
    have "int i = int (length (evolution_line p)) - 1" using True lt by simp
    thus ?thesis using ne i False dl True by (simp add: level_up_def)
  next
    case F2: False
    hence ev: "evolves p" using i False by (simp add: evolves_def)
    have n: "int i \<noteq> int (length (evolution_line p)) - 1" using F2 lt by linarith
    have s: "Suc i < length (evolution_line p)" using F2 lt by linarith
    show ?thesis using ev i False dl F2 n s
      by (simp add: level_up_def evolve_def apply_multiplier_def)
  qed
qed

theorem level_up_C8_witness:
  "(evolution_line example_A = [] \<or> name example_A \<in> set (evolution_line example_A)) \<and>
   evolves example_A \<and>
   level_up example_A =
     Inr (example_A\<lparr>level := 2, name := ''A2'', evolution_line := [''A2''],
            battle_power := 75, health := 150, speed := 30, defence := 15\<rparr>)"
proof -
  have h: "evolution_line example_A = [] \<or> name example_A \<in> set (evolution_line example_A)"
    by (simp add: example_A_def)
  have e: "evolves example_A" by (simp add: evolves_def example_A_def)
  from level_up_C8 [OF h] e obtain p' where
    p: "level_up example_A = Inr p'" and l: "level p' = level example_A + 1" by auto
  have "level_up example_A =
     Inr (example_A\<lparr>level := 2, name := ''A2'', evolution_line := [''A2''],
            battle_power := 75, health := 150, speed := 30, defence := 15\<rparr>)"
    by (simp add: level_up_def evolve_def apply_multiplier_def example_A_def)
  with h e p show ?thesis by simp
qed

text \<open>
  The claim as stated fails for a combatant that is not at the head of its line:
  created as Ivysaur with the whole line, it evolves into Venusaur, and the stage it
  passed, Ivysaur, is still in the line, because index 0 (Bulbasaur) was dropped.
\<close>

theorem level_up_C8_counterexample:
  "level_up example_mid =
     Inr (example_mid\<lparr>level := 2, name := ''Venusaur'',
            evolution_line := [''Ivysaur'', ''Venusaur''],
            battle_power := 15, health := 30, speed := 9, defence := 12\<rparr>) \<and>
   name example_mid \<in> set [''Ivysaur'', ''Venusaur'']"
  by (simp add: level_up_def evolve_def apply_multiplier_def example_mid_def)

text \<open>
  C10. With a positive battle power (whatever the defence) the base damage is
  positive, and at least 1 when battle power and defence are whole numbers. With table entries in their range
  (not negative) and positive completion ratios the attack returns a damage; when
  the entry is not 0 the damage is at least 1 and \<open>defend\<close> strictly lowers the
  defender's health; the health stays the same only when the entry is 0.
\<close>

theorem attack_positive_C10:
  assumes "0 < battle_power a"
    and "0 \<le> E (poketype a) (poketype d)" and "0 < ca" and "0 < cd"
  shows "0 < attack_base a d \<and>
     (battle_power a \<in> \<int> \<and> defence d \<in> \<int> \<longrightarrow> 1 \<le> attack_base a d) \<and>
     (\<exists>dmg. calculate_attack_damage E a d ca cd = Inr dmg \<and>
        (E (poketype a) (poketype d) \<noteq> 0 \<longrightarrow>
           1 \<le> dmg \<and> health (defend d (of_int dmg)) < health d) \<and>
        (health (defend d (of_int dmg)) = health d \<longrightarrow> E (poketype a) (poketype d) = 0))"
proof -
  let ?e = "E (poketype a) (poketype d)"
  let ?dmg = "\<lceil>attack E a d * (ca / cd)\<rceil>"
  have b: "0 < attack_base a d" using assms(1) by (rule attack_base_pos)
  have r: "calculate_attack_damage E a d ca cd = Inr ?dmg"
    using assms(4) by (simp add: calculate_attack_damage_def)
  have pos: "1 \<le> ?dmg \<and> health (defend d (of_int ?dmg)) < health d" if "?e \<noteq> 0"
  proof -
    from that assms(2) have "0 < ?e" by simp
    hence "0 < attack E a d * (ca / cd)" using b assms(3,4) by (simp add: attack_def)
    hence d1: "1 \<le> ?dmg" by simp
    hence "(0::rat) < of_int ?dmg" by simp
    thus ?thesis using d1 defend_decreases by blast
  qed
  hence "health (defend d (of_int ?dmg)) = health d \<longrightarrow> ?e = 0" by force
  thus ?thesis using b r pos attack_base_ge1[OF assms(1)] by auto
qed

theorem attack_positive_C10_witness:
  "0 < battle_power example_A \<and>
   0 \<le> example_E (poketype example_A) (poketype example_B) \<and> (0::rat) < 7 / 100 \<and>
   attack_base example_A example_B = 22 \<and>
   calculate_attack_damage example_E example_A example_B (7 / 100) (7 / 100) = Inr 11 \<and>
   health (defend example_B 11) = 189 / 2"
proof -
  have c: "\<lceil>(85::rat) / 4\<rceil> = 22" by linarith
  have h: "0 < battle_power example_A"
    "0 \<le> example_E (poketype example_A) (poketype example_B)" "(0::rat) < 7 / 100"
    by (simp_all add: example_A_def example_B_def example_E_def)
  have v: "attack_base example_A example_B = 22"
    "calculate_attack_damage example_E example_A example_B (7 / 100) (7 / 100) = Inr 11"
    "health (defend example_B 11) = 189 / 2"
    by (simp_all add: attack_base_def calculate_attack_damage_def attack_def defend_def
          example_A_def example_B_def example_E_def c)
  from attack_positive_C10 [of example_A example_E example_B "7 / 100" "7 / 100"] h
  have "0 < attack_base example_A example_B"
    by simp
  with h v show ?thesis by simp
qed

section \<open>Properties of the team containers\<close>

lemma bind_err_Inr_iff:
  "bind_err m f = Inr y \<longleftrightarrow> (\<exists>x. m = Inr x \<and> f x = Inr y)"
  by (cases m) (simp_all add: bind_err_def)

lemma mset_add: "mset (add xs i) = add_mset i (mset xs)"
proof -
  have "mset (take n xs) + mset (drop n xs) = mset xs" for n
    by (metis append_take_drop_id mset_append)
  thus ?thesis by (simp add: add_def Let_def)
qed

lemma mset_take_drop: "mset (take n xs) + mset (drop n xs) = mset xs"
  by (metis append_take_drop_id mset_append)

text \<open>A key below every key of the list is inserted at the front.\<close>

lemma index_to_add_loop_front:
  "low = 0 \<Longrightarrow> high < int (length xs) \<Longrightarrow> \<forall>i<length xs. k < key (xs ! i) \<Longrightarrow>
   index_to_add_loop xs k low high = 0"
proof (induction xs k low high rule: index_to_add_loop.induct)
  case (1 xs k low high)
  show ?case
  proof (cases "low \<le> high")
    case False
    then show ?thesis using 1(3) by (simp add: index_to_add_loop.simps)
  next
    case True
    define mid where "mid = (low + high) div 2"
    have m: "0 \<le> mid" "mid \<le> high" using True 1(3) by (auto simp: mid_def)
    hence "nat mid < length xs" using 1(4) by linarith
    hence gt: "k < key (xs ! nat mid)" using 1(5) by simp
    have "index_to_add_loop xs k low high = index_to_add_loop xs k low (mid - 1)"
      using True gt by (subst index_to_add_loop.simps) (simp add: mid_def Let_def)
    also have "\<dots> = 0"
    proof -
      have ng: "\<not> key (xs ! nat mid) < k" using gt by simp
      have h: "mid - 1 < int (length xs)" using m 1(4) by linarith
      show ?thesis using "1.IH"(2)[OF True mid_def ng gt 1(3) h 1(5)] .
    qed
    finally show ?thesis .
  qed
qed

lemma add_front: "\<forall>t\<in>set temp. key i < key t \<Longrightarrow> add temp i = i # temp"
  using index_to_add_loop_front[of 0 "int (length temp) - 1" temp "key i"]
  by (simp add: add_def index_to_add_def)

lemma negate_keys_strict:
  "sorted_wrt (<) (map key xs) \<Longrightarrow> \<forall>x\<in>set xs. \<forall>t\<in>set temp. - key x < key t \<Longrightarrow>
   negate_keys (length xs) xs temp = rev (map negated xs) @ temp"
proof (induction xs arbitrary: temp)
  case Nil
  then show ?case by simp
next
  case (Cons x rest)
  have a: "add temp (negated x) = negated x # temp"
    using Cons.prems(2) by (simp add: add_front negated_def)
  have "negate_keys (length rest) rest (negated x # temp) =
          rev (map negated rest) @ negated x # temp"
    using Cons.prems by (intro Cons.IH) (auto simp: negated_def)
  then show ?case using a by simp
qed

lemma negated_negated: "negated (negated i) = i"
  by (cases i) (simp add: negated_def)

lemma sorted_rev_negated:
  "sorted_wrt (<) (map key xs) \<Longrightarrow> sorted_wrt (<) (map key (rev (map negated xs)))"
  by (induction xs) (auto simp: sorted_wrt_append negated_def)

text \<open>
  C9, as amended. For a Ranked team whose keys are pairwise different (the list is
  strictly ascending), one call of the special reverses the list with every key
  negated and adds 1 to the counter; the second call gives back the team as it
  was, order and keys, with the counter 2 higher, so of the same parity.
\<close>

theorem special_twice_C9:
  assumes "team t = ArraySortedList xs" and "sorted_wrt (<) (map key xs)"
  shows "\<exists>t1. special t OPTIMISE = Inr t1 \<and>
     special_counter t1 = special_counter t + 1 \<and>
     team t1 = ArraySortedList (rev (map negated xs)) \<and>
     special t1 OPTIMISE = Inr (t\<lparr>special_counter := special_counter t + 2\<rparr>) \<and>
     (special_counter t + 2) mod 2 = special_counter t mod 2"
proof -
  have 1: "negate_keys (length xs) xs [] = rev (map negated xs)"
    using negate_keys_strict[OF assms(2), of "[]"] by simp
  have 2: "negate_keys (length (rev (map negated xs))) (rev (map negated xs)) [] = xs"
    using negate_keys_strict[OF sorted_rev_negated[OF assms(2)], of "[]"]
    by (simp add: rev_map negated_negated comp_def)
  have 3: "negate_keys (length xs) (rev (map negated xs)) [] = xs" using 2 by simp
  show ?thesis using assms(1) 1 3
    by (simp add: special_def)
qed

theorem special_twice_C9_witness:
  "team (example_unchosen\<lparr>team := ArraySortedList [ListItem 1 1, ListItem 2 3, ListItem 0 5]\<rparr>) =
     ArraySortedList [ListItem 1 1, ListItem 2 3, ListItem 0 5] \<and>
   sorted_wrt (<) (map key [ListItem 1 1, ListItem 2 3, ListItem 0 5]) \<and>
   special (example_unchosen\<lparr>team := ArraySortedList [ListItem 1 1, ListItem 2 3, ListItem 0 5]\<rparr>)
       OPTIMISE =
     Inr (example_unchosen\<lparr>team := ArraySortedList
            [ListItem 0 (- 5), ListItem 2 (- 3), ListItem 1 (- 1)], special_counter := 1\<rparr>) \<and>
   special (example_unchosen\<lparr>team := ArraySortedList
            [ListItem 0 (- 5), ListItem 2 (- 3), ListItem 1 (- 1)], special_counter := 1\<rparr>)
       OPTIMISE =
     Inr (example_unchosen\<lparr>team := ArraySortedList [ListItem 1 1, ListItem 2 3, ListItem 0 5],
            special_counter := 2\<rparr>)"
proof -
  let ?xs = "[ListItem 1 1, ListItem 2 3, ListItem 0 5]"
  let ?t = "example_unchosen\<lparr>team := ArraySortedList ?xs\<rparr>"
  have h: "team ?t = ArraySortedList ?xs" "sorted_wrt (<) (map key ?xs)" by simp_all
  from special_twice_C9 [OF h] obtain t1 where
    s1: "special ?t OPTIMISE = Inr t1" and
    c1: "special_counter t1 = special_counter ?t + 1" and
    m1: "team t1 = ArraySortedList (rev (map negated ?xs))" and
    s2: "special t1 OPTIMISE = Inr (?t\<lparr>special_counter := special_counter ?t + 2\<rparr>)"
    by blast
  have e: "special ?t OPTIMISE =
     Inr (example_unchosen\<lparr>team := ArraySortedList
            [ListItem 0 (- 5), ListItem 2 (- 3), ListItem 1 (- 1)], special_counter := 1\<rparr>)"
    by (simp add: special_def example_unchosen_def negated_def add_def index_to_add_def
          index_to_add_loop.simps)
  with s1 s2 h show ?thesis by (simp add: example_unchosen_def)
qed

text \<open>
  With equal keys the round trip fails. Four combatants of level 1, ranked by level,
  all carry the key 1; the binary search puts an equal key where it meets one, and
  after two calls of the special the list is in another order.
\<close>

theorem special_twice_C9_counterexample:
  "team example_team4 =
     ArraySortedList [ListItem 2 1, ListItem 3 1, ListItem 1 1, ListItem 0 1] \<and>
   special example_team4 OPTIMISE =
     Inr (example_team4\<lparr>team := ArraySortedList
            [ListItem 1 (- 1), ListItem 0 (- 1), ListItem 3 (- 1), ListItem 2 (- 1)],
            special_counter := 1\<rparr>) \<and>
   special (example_team4\<lparr>team := ArraySortedList
            [ListItem 1 (- 1), ListItem 0 (- 1), ListItem 3 (- 1), ListItem 2 (- 1)],
            special_counter := 1\<rparr>) OPTIMISE =
     Inr (example_team4\<lparr>team := ArraySortedList
            [ListItem 3 1, ListItem 2 1, ListItem 0 1, ListItem 1 1],
            special_counter := 2\<rparr>)"
  by (simp add: example_team4_def assign_team_def choose_manually_def example_unchosen_def
        heap_CC_def example_C_def special_def negated_def add_def index_to_add_def
        index_to_add_loop.simps)

section \<open>Properties of a round\<close>

lemma level_up_returns: "can_level_up p \<Longrightarrow> \<exists>p'. level_up p = Inr p'"
proof (cases "evolution_line p = []")
  case True
  then show ?thesis by (simp add: level_up_def)
next
  case False
  assume "can_level_up p"
  with False have "name p \<in> set (evolution_line p)" by (simp add: can_level_up_def)
  then obtain i where i: "index_of (evolution_line p) (name p) = Some i"
    using index_of_Some_iff by metis
  from index_of_lt[OF i] have lt: "i < length (evolution_line p)" by simp
  show ?thesis
  proof (cases "int i = int (length (evolution_line p)) - 1")
    case True
    then show ?thesis using i False by (simp add: level_up_def)
  next
    case F: False
    hence "Suc i < length (evolution_line p)" using lt by linarith
    then show ?thesis using i False F by (simp add: level_up_def evolve_def)
  qed
qed

lemma level_up_health_sign: "level_up p = Inr p' \<Longrightarrow> (0 < health p') = (0 < health p)"
  by (auto simp: level_up_def evolve_def apply_multiplier_def Let_def zero_less_mult_iff
      split: if_splits option.splits)

lemma send_back_same:
  assumes "same_class d c"
  shows "\<exists>c'. send_back d c h crit n p = Inr c' \<and>
           mset (members c') = add_mset p (mset (members c))"
  using assms by (cases d; cases c) (simp_all add: send_back_def mset_add)

lemma same_class_refl: "same_class c d \<Longrightarrow> same_class c c"
  by (cases c; cases d) simp_all

text \<open>
  C5. For two different combatants, teams of one battle mode and combatants whose
  level-up returns, sudden death returns and changes no other combatant. With
  \<open>p1\<close> and \<open>p2\<close> the two combatants after losing exactly 1 health (whatever their
  defence): if both are alive they are stored as they are and each is returned to
  its own team; if exactly one is alive, it is stored after one \<open>level_up\<close> and
  returned to its team, while the other keeps its lowered health and its team is
  left as it was; if neither is alive, none levels up and both teams are left as
  they were.
\<close>

theorem sudden_death_C5:
  assumes ne: "t1 \<noteq> t2" and sc: "same_class (team_of b Side1) (team_of b Side2)"
    and l1: "can_level_up (h t1)" and l2: "can_level_up (h t2)"
  shows "\<exists>h' b'. sudden_death h b t1 t2 = Inr (h', b') \<and>
     (\<forall>x. x \<noteq> t1 \<and> x \<noteq> t2 \<longrightarrow> h' x = h x) \<and>
     (let p1 = (h t1)\<lparr>health := health (h t1) - 1\<rparr>;
          p2 = (h t2)\<lparr>health := health (h t2) - 1\<rparr>;
          returned = (\<lambda>s p. mset (members (team_of b' s)) =
                              add_mset p (mset (members (team_of b s))));
          kept_out = (\<lambda>s. team_of b' s = team_of b s)
      in if is_alive p1 \<and> is_alive p2 then
           h' t1 = p1 \<and> h' t2 = p2 \<and> returned Side1 t1 \<and> returned Side2 t2
         else if is_alive p1 then
           level_up p1 = Inr (h' t1) \<and> h' t2 = p2 \<and> returned Side1 t1 \<and> kept_out Side2
         else if is_alive p2 then
           h' t1 = p1 \<and> level_up p2 = Inr (h' t2) \<and> kept_out Side1 \<and> returned Side2 t2
         else h' t1 = p1 \<and> h' t2 = p2 \<and> kept_out Side1 \<and> kept_out Side2)"
proof -
  define p1 where "p1 = (h t1)\<lparr>health := health (h t1) - 1\<rparr>"
  define p2 where "p2 = (h t2)\<lparr>health := health (h t2) - 1\<rparr>"
  define h2 where "h2 = (h(t1 := p1))(t2 := p2)"
  define c1 where "c1 = team_of b Side1"
  define c2 where "c2 = team_of b Side2"
  have sd: "sudden_death h b t1 t2 =
     (if is_alive p1 \<and> is_alive p2 then
        bind_err (send_back c1 c1 h2 (criterion b) (special_counter (poke_team (trainer_1 b))) t1)
          (\<lambda>d1. bind_err (send_back c1 c2 h2 (criterion b)
                            (special_counter (poke_team (trainer_2 b))) t2)
             (\<lambda>d2. Inr (h2, set_team (set_team b Side1 d1) Side2 d2)))
      else if is_alive p1 then
        bind_err (level_up p1)
          (\<lambda>levelled. bind_err (send_back c1 c1 (h2(t1 := levelled)) (criterion b)
                         (special_counter (poke_team (trainer_1 b))) t1)
               (\<lambda>d1. Inr (h2(t1 := levelled), set_team b Side1 d1)))
      else if is_alive p2 then
        bind_err (level_up p2)
          (\<lambda>levelled. bind_err (send_back c1 c2 (h2(t2 := levelled)) (criterion b)
                         (special_counter (poke_team (trainer_2 b))) t2)
               (\<lambda>d2. Inr (h2(t2 := levelled), set_team b Side2 d2)))
      else Inr (h2, b))"
    using ne by (simp add: sudden_death_def Let_def p1_def p2_def h2_def c1_def c2_def)
  have s11: "same_class c1 c1" and s12: "same_class c1 c2"
    using sc same_class_refl by (auto simp: c1_def c2_def)
  have u1: "can_level_up p1" and u2: "can_level_up p2"
    using l1 l2 by (simp_all add: can_level_up_def p1_def p2_def)
  have hv: "h2 t1 = p1" "h2 t2 = p2" "\<And>x. x \<noteq> t1 \<and> x \<noteq> t2 \<longrightarrow> h2 x = h x"
    using ne by (simp_all add: h2_def)
  show ?thesis
  proof (cases "is_alive p1")
    case a1: True
    show ?thesis
    proof (cases "is_alive p2")
      case a2: True
      from send_back_same[OF s11] obtain d1 where
        d1: "send_back c1 c1 h2 (criterion b) (special_counter (poke_team (trainer_1 b))) t1
               = Inr d1"
        and m1: "mset (members d1) = add_mset t1 (mset (members c1))" by blast
      from send_back_same[OF s12] obtain d2 where
        d2: "send_back c1 c2 h2 (criterion b) (special_counter (poke_team (trainer_2 b))) t2
               = Inr d2"
        and m2: "mset (members d2) = add_mset t2 (mset (members c2))" by blast
      have r: "sudden_death h b t1 t2 = Inr (h2, set_team (set_team b Side1 d1) Side2 d2)"
        using sd a1 a2 d1 d2 by (simp add: bind_err_def)
      show ?thesis using r a1 a2 hv m1 m2 ne
        by (simp add: Let_def team_of_def c1_def c2_def flip: p1_def p2_def)
    next
      case a2: False
      from level_up_returns[OF u1] obtain q where q: "level_up p1 = Inr q" by blast
      from send_back_same[OF s11] obtain d1 where
        d1: "send_back c1 c1 (h2(t1 := q)) (criterion b)
               (special_counter (poke_team (trainer_1 b))) t1 = Inr d1"
        and m1: "mset (members d1) = add_mset t1 (mset (members c1))" by blast
      have r: "sudden_death h b t1 t2 = Inr (h2(t1 := q), set_team b Side1 d1)"
        using sd a1 a2 q d1 by (simp add: bind_err_def)
      show ?thesis using r a1 a2 hv m1 q ne
        by (simp add: Let_def team_of_def c1_def c2_def flip: p1_def p2_def)
    qed
  next
    case a1: False
    show ?thesis
    proof (cases "is_alive p2")
      case a2: True
      from level_up_returns[OF u2] obtain q where q: "level_up p2 = Inr q" by blast
      from send_back_same[OF s12] obtain d2 where
        d2: "send_back c1 c2 (h2(t2 := q)) (criterion b)
               (special_counter (poke_team (trainer_2 b))) t2 = Inr d2"
        and m2: "mset (members d2) = add_mset t2 (mset (members c2))" by blast
      have r: "sudden_death h b t1 t2 = Inr (h2(t2 := q), set_team b Side2 d2)"
        using sd a1 a2 q d2 by (simp add: bind_err_def)
      show ?thesis using r a1 a2 hv m2 q ne
        by (simp add: Let_def team_of_def c1_def c2_def flip: p1_def p2_def)
    next
      case a2: False
      have r: "sudden_death h b t1 t2 = Inr (h2, b)"
        using sd a1 a2 by simp
      show ?thesis using r a1 a2 hv
        by (simp add: Let_def flip: p1_def p2_def)
    qed
  qed
qed

theorem sudden_death_C5_witness:
  "(0::nat) \<noteq> 1 \<and>
   same_class (team_of (example_in_round heap_AB) Side1) (team_of (example_in_round heap_AB) Side2) \<and>
   can_level_up (heap_AB 0) \<and> can_level_up (heap_AB 1) \<and>
   (case sudden_death heap_AB (example_in_round heap_AB) 0 1 of
      Inr (h', b') \<Rightarrow>
        health (h' 0) = 99 \<and> health (h' 1) = 99 \<and> level (h' 0) = 1 \<and> level (h' 1) = 1 \<and>
        team_of b' Side1 = ArrayStack [0] \<and> team_of b' Side2 = ArrayStack [1]
    | Inl e \<Rightarrow> False) \<and>
   (case sudden_death (heap_AB(1 := example_B\<lparr>health := 1\<rparr>)) (example_in_round heap_AB) 0 1 of
      Inr (h', b') \<Rightarrow>
        health (h' 0) = 297 / 2 \<and> health (h' 1) = 0 \<and> level (h' 0) = 2 \<and> level (h' 1) = 1 \<and>
        team_of b' Side1 = ArrayStack [0] \<and> team_of b' Side2 = ArrayStack []
    | Inl e \<Rightarrow> False)"
proof -
  have h: "(0::nat) \<noteq> 1"
    "same_class (team_of (example_in_round heap_AB) Side1) (team_of (example_in_round heap_AB) Side2)"
    "can_level_up (heap_AB 0)" "can_level_up (heap_AB 1)"
    by code_simp+
  from sudden_death_C5 [OF h] obtain h' b' where
    r: "sudden_death heap_AB (example_in_round heap_AB) 0 1 = Inr (h', b')" by blast
  have e1: "(case sudden_death heap_AB (example_in_round heap_AB) 0 1 of
      Inr (h', b') \<Rightarrow>
        health (h' 0) = 99 \<and> health (h' 1) = 99 \<and> level (h' 0) = 1 \<and> level (h' 1) = 1 \<and>
        team_of b' Side1 = ArrayStack [0] \<and> team_of b' Side2 = ArrayStack [1]
    | Inl e \<Rightarrow> False)"
    by code_simp
  have e2: "(case sudden_death (heap_AB(1 := example_B\<lparr>health := 1\<rparr>)) (example_in_round heap_AB) 0 1 of
      Inr (h', b') \<Rightarrow>
        health (h' 0) = 297 / 2 \<and> health (h' 1) = 0 \<and> level (h' 0) = 2 \<and> level (h' 1) = 1 \<and>
        team_of b' Side1 = ArrayStack [0] \<and> team_of b' Side2 = ArrayStack []
    | Inl e \<Rightarrow> False)"
    by code_simp
  from h r e1 e2 show ?thesis by simp
qed


lemma check_alive_heap:
  "check_alive h b a d s = Inr (h', b') \<Longrightarrow> x \<noteq> a \<Longrightarrow> h' x = h x"
  by (auto simp: check_alive_def bind_err_Inr_iff Let_def split: if_splits)

lemma check_alive_attacker_sign:
  "check_alive h b a d s = Inr (h', b') \<Longrightarrow> (0 < health (h' a)) = (0 < health (h a))"
  by (auto simp: check_alive_def bind_err_Inr_iff Let_def level_up_health_sign split: if_splits)

lemma attack_defend_defender:
  assumes "attack_defend E h b a d s = Inr (h', b')" and "a \<noteq> d"
  shows "\<exists>dmg. calculate_attack_damage E (h a) (h d)
                 (get_pokedex_completion (trainer_of b s))
                 (get_pokedex_completion (trainer_of b (opponent s))) = Inr dmg \<and>
               h' d = defend (h d) (of_int dmg)"
proof -
  from assms(1) obtain dmg where
    c: "calculate_attack_damage E (h a) (h d)
          (get_pokedex_completion (trainer_of b s))
          (get_pokedex_completion (trainer_of b (opponent s))) = Inr dmg"
    and k: "check_alive (h(d := defend (h d) (of_int dmg))) b a d s = Inr (h', b')"
    by (auto simp: attack_defend_def bind_err_Inr_iff)
  from check_alive_heap[OF k, of d] assms(2) have "h' d = defend (h d) (of_int dmg)" by simp
  with c show ?thesis by blast
qed

lemma attack_defend_attacker_sign:
  assumes "attack_defend E h b a d s = Inr (h', b')" and "a \<noteq> d"
  shows "(0 < health (h' a)) = (0 < health (h a))"
proof -
  from assms(1) obtain dmg where
    k: "check_alive (h(d := defend (h d) (of_int dmg))) b a d s = Inr (h', b')"
    by (auto simp: attack_defend_def bind_err_Inr_iff)
  from check_alive_attacker_sign[OF k] assms(2) show ?thesis by simp
qed

text \<open>
  C2. At equal speed the round is: the attack of side 1 on side 2, then the attack
  of side 2 on side 1, with no test of survival between them, then sudden death
  exactly when both have a health above 0. In particular, when the combatant of
  side 2 has fainted from the first attack and the round returns, the combatant of
  side 1 ends the round having defended against the damage the fainted one deals.
\<close>

theorem tie_round_C2:
  assumes "speed (h t1) = speed (h t2)"
  shows "battle_round E h b t1 t2 =
       bind_err (attack_defend E h b t1 t2 Side1)
         (\<lambda>(h1, b1). bind_err (attack_defend E h1 b1 t2 t1 Side2)
            (\<lambda>(h2, b2). if 0 < health (h2 t1) \<and> 0 < health (h2 t2)
                         then sudden_death h2 b2 t1 t2 else Inr (h2, b2))) \<and>
     (\<forall>h1 b1 h' b'.
        t1 \<noteq> t2 \<and> attack_defend E h b t1 t2 Side1 = Inr (h1, b1) \<and> \<not> is_alive (h1 t2) \<and>
        battle_round E h b t1 t2 = Inr (h', b') \<longrightarrow>
        (\<exists>dmg. calculate_attack_damage E (h1 t2) (h1 t1)
                  (get_pokedex_completion (trainer_2 b1))
                  (get_pokedex_completion (trainer_1 b1)) = Inr dmg \<and>
                h' t1 = defend (h1 t1) (of_int dmg)))"
proof
  show eq: "battle_round E h b t1 t2 =
       bind_err (attack_defend E h b t1 t2 Side1)
         (\<lambda>(h1, b1). bind_err (attack_defend E h1 b1 t2 t1 Side2)
            (\<lambda>(h2, b2). if 0 < health (h2 t1) \<and> 0 < health (h2 t2)
                         then sudden_death h2 b2 t1 t2 else Inr (h2, b2)))"
    using assms by (simp add: battle_round_def sudden_death_if_both_alive_def)
  show "\<forall>h1 b1 h' b'.
        t1 \<noteq> t2 \<and> attack_defend E h b t1 t2 Side1 = Inr (h1, b1) \<and> \<not> is_alive (h1 t2) \<and>
        battle_round E h b t1 t2 = Inr (h', b') \<longrightarrow>
        (\<exists>dmg. calculate_attack_damage E (h1 t2) (h1 t1)
                  (get_pokedex_completion (trainer_2 b1))
                  (get_pokedex_completion (trainer_1 b1)) = Inr dmg \<and>
                h' t1 = defend (h1 t1) (of_int dmg))"
  proof (intro allI impI, elim conjE)
    fix h1 b1 h' b'
    assume ne: "t1 \<noteq> t2" and a1: "attack_defend E h b t1 t2 Side1 = Inr (h1, b1)"
      and dead: "\<not> is_alive (h1 t2)" and r: "battle_round E h b t1 t2 = Inr (h', b')"
    from r eq a1 obtain h2 b2 where
      a2: "attack_defend E h1 b1 t2 t1 Side2 = Inr (h2, b2)" and
      f: "(if 0 < health (h2 t1) \<and> 0 < health (h2 t2)
             then sudden_death h2 b2 t1 t2 else Inr (h2, b2)) = Inr (h', b')"
      by (auto simp: bind_err_Inr_iff)
    from attack_defend_attacker_sign[OF a2] ne dead have "\<not> 0 < health (h2 t2)"
      by (simp add: is_alive_def)
    with f have "h' = h2" by simp
    moreover from attack_defend_defender[OF a2] ne obtain dmg where
      "calculate_attack_damage E (h1 t2) (h1 t1)
          (get_pokedex_completion (trainer_2 b1))
          (get_pokedex_completion (trainer_1 b1)) = Inr dmg"
      "h2 t1 = defend (h1 t1) (of_int dmg)"
      by auto
    ultimately show "\<exists>dmg. calculate_attack_damage E (h1 t2) (h1 t1)
                  (get_pokedex_completion (trainer_2 b1))
                  (get_pokedex_completion (trainer_1 b1)) = Inr dmg \<and>
                h' t1 = defend (h1 t1) (of_int dmg)" by auto
  qed
qed

theorem tie_round_C2_witness:
  "speed (heap_CC 0) = speed (heap_CC 1) \<and>
   (case attack_defend example_E heap_CC (example_in_round heap_CC) 0 1 Side1 of
      Inr (h1, b1) \<Rightarrow> health (h1 1) = - 35 \<and> health (h1 0) = 5
    | Inl e \<Rightarrow> False) \<and>
   (case battle_round example_E heap_CC (example_in_round heap_CC) 0 1 of
      Inr (h', b') \<Rightarrow> health (h' 1) = - 35 \<and> health (h' 0) = - 35
    | Inl e \<Rightarrow> False)"
proof -
  have h: "speed (heap_CC 0) = speed (heap_CC 1)" by code_simp
  from tie_round_C2 [OF h, of example_E "example_in_round heap_CC"]
  have eq: "battle_round example_E heap_CC (example_in_round heap_CC) 0 1 =
       bind_err (attack_defend example_E heap_CC (example_in_round heap_CC) 0 1 Side1)
         (\<lambda>(h1, b1). bind_err (attack_defend example_E h1 b1 1 0 Side2)
            (\<lambda>(h2, b2). if 0 < health (h2 0) \<and> 0 < health (h2 1)
                         then sudden_death h2 b2 0 1 else Inr (h2, b2)))"
    by blast
  have e1: "(case attack_defend example_E heap_CC (example_in_round heap_CC) 0 1 Side1 of
      Inr (h1, b1) \<Rightarrow> health (h1 1) = - 35 \<and> health (h1 0) = 5
    | Inl e \<Rightarrow> False)"
    by code_simp
  have e2: "(case bind_err (attack_defend example_E heap_CC (example_in_round heap_CC) 0 1 Side1)
         (\<lambda>(h1, b1). bind_err (attack_defend example_E h1 b1 1 0 Side2)
            (\<lambda>(h2, b2). if 0 < health (h2 0) \<and> 0 < health (h2 1)
                         then sudden_death h2 b2 0 1 else Inr (h2, b2))) of
      Inr (h', b') \<Rightarrow> health (h' 1) = - 35 \<and> health (h' 0) = - 35
    | Inl e \<Rightarrow> False)"
    by code_simp
  from h e1 e2 show ?thesis unfolding eq by simp
qed


section \<open>Properties of a whole battle\<close>

lemma winner_set_team: "winner_trainer (set_team b s c) = winner_trainer b"
  by (cases s) simp_all

lemma team_of_winner_update: "team_of (b\<lparr>winner_trainer := w\<rparr>) s = team_of b s"
  by (cases s) (simp_all add: team_of_def)

lemma check_alive_winner:
  "check_alive h b a d s = Inr (h', b') \<Longrightarrow> winner_trainer b' = winner_trainer b"
  by (auto simp: check_alive_def bind_err_Inr_iff Let_def winner_set_team split: if_splits)

lemma attack_defend_winner:
  "attack_defend E h b a d s = Inr (h', b') \<Longrightarrow> winner_trainer b' = winner_trainer b"
  by (auto simp: attack_defend_def bind_err_Inr_iff dest: check_alive_winner)

lemma sudden_death_winner:
  "sudden_death h b t1 t2 = Inr (h', b') \<Longrightarrow> winner_trainer b' = winner_trainer b"
  by (auto simp: sudden_death_def bind_err_Inr_iff Let_def winner_set_team split: if_splits)

lemma sudden_death_if_winner:
  "sudden_death_if_both_alive h b t1 t2 = Inr (h', b') \<Longrightarrow>
   winner_trainer b' = winner_trainer b"
  by (auto simp: sudden_death_if_both_alive_def dest: sudden_death_winner split: if_splits)

lemma battle_round_winner:
  "battle_round E h b t1 t2 = Inr (h', b') \<Longrightarrow> winner_trainer b' = winner_trainer b"
  unfolding battle_round_def
  by (auto simp: bind_err_Inr_iff split: if_splits
      dest!: sudden_death_if_winner attack_defend_winner)

lemma next_round_winner:
  assumes a: "next_round E h b = Inr (h', b')"
  shows "winner_trainer b' = winner_trainer b"
proof -
  from a obtain i1 c1 where g1: "get_next_pokemon (team_of b Side1) = Inr (i1, c1)"
    by (auto simp: next_round_def bind_err_Inr_iff)
  with a obtain i2 c2 where
    g2: "get_next_pokemon (team_of (set_team b Side1 c1) Side2) = Inr (i2, c2)"
    by (auto simp: next_round_def bind_err_Inr_iff)
  show ?thesis using a g1 g2
    by (cases i1; cases i2; cases "battle_mode b")
       (auto simp: next_round_def bind_err_def Let_def winner_set_team
          dest!: battle_round_winner)
qed

lemma conduct_battle_winner:
  "conduct_battle E fuel h b = Some (Inr (h', b')) \<Longrightarrow> winner_trainer b = None \<Longrightarrow>
   (winner_trainer b' = Some Side2) =
       (len (team_of b' Side1) = 0 \<and> len (team_of b' Side2) \<noteq> 0) \<and>
   (winner_trainer b' = Some Side1) =
       (len (team_of b' Side2) = 0 \<and> len (team_of b' Side1) \<noteq> 0) \<and>
   (winner_trainer b' = None) =
       (len (team_of b' Side1) = 0 \<and> len (team_of b' Side2) = 0)"
proof (induction fuel arbitrary: h b)
  case 0
  then show ?case by simp
next
  case (Suc fuel)
  show ?case
  proof (cases "len (team_of b Side1) = 0")
    case True
    then show ?thesis using Suc.prems
      by (auto simp: team_of_winner_update split: if_splits)
  next
    case F1: False
    show ?thesis
    proof (cases "len (team_of b Side2) = 0")
      case True
      then show ?thesis using Suc.prems F1
        by (auto simp: team_of_winner_update)
    next
      case False
      with F1 Suc.prems(1) obtain h1 b1 where
        n: "next_round E h b = Inr (h1, b1)" and
        c: "conduct_battle E fuel h1 b1 = Some (Inr (h', b'))"
        by (auto split: sum.splits)
      from next_round_winner[OF n] Suc.prems(2) have "winner_trainer b1 = None" by simp
      with Suc.IH[OF c] show ?thesis .
    qed
  qed
qed

text \<open>
  C6. A battle object as \<open>__init__\<close> builds it, whose \<open>commence_battle\<close> returns
  (within some number of rounds, without an exception): the trainer returned is
  trainer 2 exactly when at the end team 1 is empty and team 2 is not, trainer 1
  exactly when team 2 is empty and team 1 is not, and \<open>None\<close> exactly when both
  teams are empty.
\<close>

theorem commence_battle_C6:
  assumes "commence_battle E fuel h (init_Battle tr1 tr2 mode crit) = Some (Inr (w, h', b'))"
  shows "(w = Some Side2) = (len (team_of b' Side1) = 0 \<and> len (team_of b' Side2) \<noteq> 0) \<and>
     (w = Some Side1) = (len (team_of b' Side2) = 0 \<and> len (team_of b' Side1) \<noteq> 0) \<and>
     (w = None) = (len (team_of b' Side1) = 0 \<and> len (team_of b' Side2) = 0)"
proof -
  from assms have c: "conduct_battle E fuel h (init_Battle tr1 tr2 mode crit) = Some (Inr (h', b'))"
    and w: "w = winner_trainer b'"
    by (auto simp: commence_battle_def split: option.splits sum.splits)
  have "winner_trainer (init_Battle tr1 tr2 mode crit) = None" by (simp add: init_Battle_def)
  from conduct_battle_winner[OF c this] w show ?thesis by simp
qed

theorem commence_battle_C6_witness:
  "(case commence_battle example_E 2 heap_AD
           (init_Battle (example_trainer heap_AD [0] ROTATE) (example_trainer heap_AD [1] ROTATE)
              ROTATE Health) of
      Some (Inr (w, h', b')) \<Rightarrow>
        w = Some Side1 \<and> team_of b' Side1 = CircularQueue [0] \<and> team_of b' Side2 = CircularQueue []
    | _ \<Rightarrow> False) \<and>
   (case commence_battle example_E 6 heap_AB
           (init_Battle (example_trainer heap_AB [0] SET) (example_trainer heap_AB [1] SET)
              SET Health) of
      Some (Inr (w, h', b')) \<Rightarrow>
        w = Some Side2 \<and> team_of b' Side1 = ArrayStack [] \<and> team_of b' Side2 = ArrayStack [1]
    | _ \<Rightarrow> False) \<and>
   (case commence_battle example_E 2 heap_BB
           (init_Battle (example_trainer heap_BB [0] OPTIMISE) (example_trainer heap_BB [1] OPTIMISE)
              OPTIMISE Health) of
      Some (Inr (w, h', b')) \<Rightarrow>
        w = None \<and> team_of b' Side1 = ArraySortedList [] \<and> team_of b' Side2 = ArraySortedList []
    | _ \<Rightarrow> False)"
proof -
  let ?b = "init_Battle (example_trainer heap_AD [0] ROTATE) (example_trainer heap_AD [1] ROTATE)
              ROTATE Health"
  have e1: "(case commence_battle example_E 2 heap_AD ?b of
      Some (Inr (w, h', b')) \<Rightarrow>
        w = Some Side1 \<and> team_of b' Side1 = CircularQueue [0] \<and> team_of b' Side2 = CircularQueue []
    | _ \<Rightarrow> False)"
    by code_simp
  then obtain w h' b' where r: "commence_battle example_E 2 heap_AD ?b = Some (Inr (w, h', b'))"
    by (auto split: option.splits sum.splits)
  from commence_battle_C6 [OF r]
  have i: "(w = Some Side1) = (len (team_of b' Side2) = 0 \<and> len (team_of b' Side1) \<noteq> 0)"
    by simp
  have e2: "(case commence_battle example_E 6 heap_AB
           (init_Battle (example_trainer heap_AB [0] SET) (example_trainer heap_AB [1] SET)
              SET Health) of
      Some (Inr (w, h', b')) \<Rightarrow>
        w = Some Side2 \<and> team_of b' Side1 = ArrayStack [] \<and> team_of b' Side2 = ArrayStack [1]
    | _ \<Rightarrow> False)"
    by code_simp
  have e3: "(case commence_battle example_E 2 heap_BB
           (init_Battle (example_trainer heap_BB [0] OPTIMISE) (example_trainer heap_BB [1] OPTIMISE)
              OPTIMISE Health) of
      Some (Inr (w, h', b')) \<Rightarrow>
        w = None \<and> team_of b' Side1 = ArraySortedList [] \<and> team_of b' Side2 = ArraySortedList []
    | _ \<Rightarrow> False)"
    by code_simp
  from e1 e2 e3 r i show ?thesis by simp
qed

lemma completion_one: "pokedex t = {NORMAL} \<Longrightarrow> get_pokedex_completion t = 7 / 100"
proof -
  have f: "\<lfloor>(20::rat) / 3\<rfloor> = 6" by linarith
  show "pokedex t = {NORMAL} \<Longrightarrow> get_pokedex_completion t = 7 / 100"
    by (simp add: get_pokedex_completion_def round2_def Let_def f)
qed

lemma hit_C:
  assumes "like_C a" "like_C d"
  shows "calculate_attack_damage example_E a d (7 / 100) (7 / 100) = Inr 40"
  using assms
  by (simp add: like_C_def calculate_attack_damage_def attack_def attack_base_def example_E_def)

lemma level_up_C: "like_C p \<Longrightarrow> level_up p = Inr (p\<lparr>level := level p + 1\<rparr>)"
  by (simp add: like_C_def level_up_def)

text \<open>A round in the stuck state ends in the stuck state: both fainted combatants are back.\<close>

lemma stuck_step:
  assumes "stuck p q h b"
  shows "\<exists>h' b'. next_round example_E h b = Inr (h', b') \<and> stuck p q h' b'"
proof -
  from assms have ne: "p \<noteq> q"
    and t: "team_of b Side1 = ArrayStack [p]" "team_of b Side2 = ArrayStack [q]"
    and m: "battle_mode b = SET"
    and pd: "pokedex (trainer_1 b) = {NORMAL}" "pokedex (trainer_2 b) = {NORMAL}"
    and c: "like_C (h p)" "like_C (h q)" by (simp_all add: stuck_def)
  from c have ty: "poketype (h p) = NORMAL" "poketype (h q) = NORMAL"
    "speed (h p) = 20" "speed (h q) = 20"
    by (simp_all add: like_C_def)
  define b3 where "b3 =
      (let b1 = set_team (set_team b Side1 (ArrayStack [])) Side2 (ArrayStack []);
           b2 = b1\<lparr>trainer_1 := register_pokemon (trainer_1 b1) (h q)\<rparr>
       in b2\<lparr>trainer_2 := register_pokemon (trainer_2 b2) (h p)\<rparr>)"
  have n: "next_round example_E h b = battle_round example_E h b3 p q"
    using t m by (simp add: next_round_def bind_err_def team_of_def b3_def Let_def)
  have b3p: "get_pokedex_completion (trainer_1 b3) = 7 / 100"
    "get_pokedex_completion (trainer_2 b3) = 7 / 100"
    using pd ty by (simp_all add: b3_def Let_def register_pokemon_def completion_one)
  have b3t: "team_of b3 Side1 = ArrayStack []" "team_of b3 Side2 = ArrayStack []"
    by (simp_all add: b3_def Let_def team_of_def register_pokemon_def)
  define d1 where "d1 = defend (h q) 40"
  have d1c: "like_C d1" "\<not> is_alive d1"
    using c by (simp_all add: d1_def defend_def like_C_def is_alive_def)
  define a1 where "a1 = (h p)\<lparr>level := level (h p) + 1\<rparr>"
  have a1c: "like_C a1" using c by (simp add: a1_def like_C_def)
  define h1 where "h1 = (h(q := d1))(p := a1)"
  define b4 where "b4 = set_team b3 Side1 (ArrayStack [p])"
  have s1: "attack_defend example_E h b3 p q Side1 = Inr (h1, b4)"
    using ne d1c[unfolded d1_def]
    by (simp add: attack_defend_def bind_err_def check_alive_def send_back_def Let_def
          h1_def b4_def a1_def d1_def hit_C[OF c] level_up_C[OF c(1)] b3p b3t)
  define d0 where "d0 = defend a1 40"
  have d0c: "like_C d0" "\<not> is_alive d0"
    using a1c by (simp_all add: d0_def defend_def like_C_def is_alive_def)
  define a2 where "a2 = d1\<lparr>level := level d1 + 1\<rparr>"
  have a2c: "like_C a2" "\<not> 0 < health a2"
    using d1c by (simp_all add: a2_def like_C_def is_alive_def)
  define h2 where "h2 = (h1(p := d0))(q := a2)"
  define b5 where "b5 = set_team b4 Side2 (ArrayStack [q])"
  have b4p: "get_pokedex_completion (trainer_1 b4) = 7 / 100"
    "get_pokedex_completion (trainer_2 b4) = 7 / 100"
    using b3p by (simp_all add: b4_def get_pokedex_completion_def)
  have b4t: "team_of b4 Side2 = ArrayStack []"
    using b3t by (simp add: b4_def team_of_def)
  have h1v: "h1 p = a1" "h1 q = d1" using ne by (simp_all add: h1_def)
  have s2: "attack_defend example_E h1 b4 q p Side2 = Inr (h2, b5)"
    using ne d0c[unfolded d0_def]
    by (simp add: attack_defend_def bind_err_def check_alive_def send_back_def Let_def
          h2_def b5_def a2_def d0_def hit_C[OF d1c(1) a1c] level_up_C[OF d1c(1)] b4p b4t h1v)
  have h2v: "h2 p = d0" "h2 q = a2" using ne by (simp_all add: h2_def)
  have r: "battle_round example_E h b3 p q = Inr (h2, b5)"
    using a2c
    by (simp add: battle_round_def bind_err_def sudden_death_if_both_alive_def ty s1 s2 h2v)
  have "stuck p q h2 b5"
    using d0c a2c pd m ty ne
    by (simp add: stuck_def b5_def b4_def b3_def Let_def team_of_def register_pokemon_def h2v)
  with n r show ?thesis by simp
qed

lemma stuck_forever: "stuck p q h b \<Longrightarrow> conduct_battle example_E fuel h b = None"
proof (induction fuel arbitrary: h b)
  case 0
  then show ?case by simp
next
  case (Suc fuel)
  from stuck_step[OF Suc.prems] obtain h' b' where
    n: "next_round example_E h b = Inr (h', b')" and s: "stuck p q h' b'" by blast
  from Suc.prems have "len (team_of b Side1) \<noteq> 0" "len (team_of b Side2) \<noteq> 0"
    by (simp_all add: stuck_def)
  thus ?case using n Suc.IH[OF s] by simp
qed

lemma stuck_start: "stuck 0 1 heap_CC (example_battle heap_CC SET)"
  by (simp add: stuck_def like_C_def heap_CC_def example_C_def example_battle_def init_Battle_def
        example_trainer_def pick_team_def choose_manually_def example_unchosen_def
        assemble_team_def register_pokemon_def team_of_def Let_def)

text \<open>
  C1 fails on the code. Two combatants of equal speed, each fainting at the other's
  hit, meet in mode SET. After the round both are back on their stacks with a health
  of -35: the first \<open>_check_alive\<close> returned the combatant of side 1 before it was
  hit, the second returned the combatant of side 2 although it had fainted. From
  then on every round ends the same way, no team is ever emptied, and the battle
  does not return, however many rounds it is given.
\<close>

theorem tie_returns_fainted_C1:
  "(case next_round example_E heap_CC (example_battle heap_CC SET) of
      Inr (h', b') \<Rightarrow>
        team_of b' Side1 = ArrayStack [0] \<and> team_of b' Side2 = ArrayStack [1] \<and>
        health (h' 0) = - 35 \<and> health (h' 1) = - 35 \<and>
        \<not> is_alive (h' 0) \<and> \<not> is_alive (h' 1)
    | Inl e \<Rightarrow> False) \<and>
   (\<forall>fuel. conduct_battle example_E fuel heap_CC (example_battle heap_CC SET) = None)"
proof
  show "(case next_round example_E heap_CC (example_battle heap_CC SET) of
      Inr (h', b') \<Rightarrow>
        team_of b' Side1 = ArrayStack [0] \<and> team_of b' Side2 = ArrayStack [1] \<and>
        health (h' 0) = - 35 \<and> health (h' 1) = - 35 \<and>
        \<not> is_alive (h' 0) \<and> \<not> is_alive (h' 1)
    | Inl e \<Rightarrow> False)"
    by code_simp
  show "\<forall>fuel. conduct_battle example_E fuel heap_CC (example_battle heap_CC SET) = None"
    using stuck_forever[OF stuck_start] by simp
qed

section \<open>Properties of regeneration\<close>

lemma heal_fold:
  "foldl (\<lambda>hp pokemon. hp(pokemon := (hp pokemon)\<lparr>health := f (species (hp pokemon))\<rparr>)) h m x =
     (if x \<in> set m then (h x)\<lparr>health := f (species (h x))\<rparr> else h x)"
  by (induction m arbitrary: h) auto

lemma foldl_push: "foldl (\<lambda>st pokemon. pokemon # st) acc xs = rev xs @ acc"
  by (induction xs arbitrary: acc) auto

lemma foldl_append: "foldl (\<lambda>q pokemon. q @ [pokemon]) acc xs = acc @ xs"
  by (induction xs arbitrary: acc) auto

lemma foldl_add:
  "image_mset item_value
     (mset (foldl (\<lambda>l pokemon. add l (ListItem pokemon (k pokemon))) acc xs)) =
   image_mset item_value (mset acc) + mset xs"
  by (induction xs arbitrary: acc) (auto simp: mset_add)

lemma pop_push_eq: "pop_push n src dst = (drop n src, rev (take n src) @ dst)"
  by (induction n src dst rule: pop_push.induct) auto

lemma serve_append_eq: "serve_append n src dst = (drop n src, dst @ take n src)"
  by (induction n src dst rule: serve_append.induct) auto

lemma negate_keys_members:
  "image_mset item_value (mset (negate_keys n xs temp)) =
     image_mset item_value (mset (take n xs)) + image_mset item_value (mset temp)"
  by (induction n xs temp rule: negate_keys.induct) (auto simp: mset_add negated_def)

text \<open>The special moves combatants around; it neither adds nor drops one.\<close>

lemma special_members:
  assumes "special t mode = Inr t'"
  shows "mset (members (team t')) = mset (members (team t)) \<and> team_memory t' = team_memory t"
  using assms
  by (cases mode; cases "team t")
     (auto simp: special_def pop_push_eq serve_append_eq negate_keys_members mset_take_drop
        split: if_splits)

lemma special_returns:
  assumes "(mode = SET \<and> (\<exists>xs. team t = ArrayStack xs)) \<or>
     (mode = ROTATE \<and> (\<exists>xs. team t = CircularQueue xs)) \<or>
     (mode = OPTIMISE \<and> (\<exists>xs. team t = ArraySortedList xs))"
  shows "\<exists>t'. special t mode = Inr t'"
  using assms by (auto simp: special_def pop_push_eq serve_append_eq)

lemma assemble_team_members:
  assumes "team t = ArrayR m" and "mode = OPTIMISE \<longrightarrow> crit \<noteq> None"
  shows "\<exists>t'. assemble_team h t mode crit = Inr t' \<and> mset (members (team t')) = mset m \<and>
     team_memory t' = team_memory t \<and> special_counter t' = special_counter t \<and>
     ((mode = SET \<and> (\<exists>xs. team t' = ArrayStack xs)) \<or>
      (mode = ROTATE \<and> (\<exists>xs. team t' = CircularQueue xs)) \<or>
      (mode = OPTIMISE \<and> (\<exists>xs. team t' = ArraySortedList xs)))"
  using assms
  by (cases mode) (auto simp: assemble_team_def assign_team_def foldl_push foldl_append foldl_add)

text \<open>
  C7, as amended. For a team that chose its combatants (\<open>team_memory\<close> holds them;
  in mode OPTIMISE a criterion is given), \<open>regenerate_team\<close> returns; the regenerated
  container holds exactly the combatants of \<open>team_memory\<close>, each once more, whatever
  the container held before, so a combatant that fainted in battle and left the
  container is back; each of them has the baseline health of its species and is
  otherwise unchanged (level, name, evolution line, statistics); no other
  combatant is touched.
\<close>

theorem regenerate_team_C7:
  assumes "team_memory t = Some m" and "mode = OPTIMISE \<longrightarrow> crit \<noteq> None"
  shows "\<exists>h' t'. regenerate_team ph h t mode crit = Inr (h', t') \<and>
     mset (members (team t')) = mset m \<and> team_memory t' = Some m \<and>
     (\<forall>p\<in>set m. h' p = (h p)\<lparr>health := ph (species (h p))\<rparr>) \<and>
     (\<forall>p. p \<notin> set m \<longrightarrow> h' p = h p)"
proof -
  define h1 where "h1 = foldl (\<lambda>hp pokemon.
      hp(pokemon := (hp pokemon)\<lparr>health := ph (species (hp pokemon))\<rparr>)) h m"
  have hv: "h1 x = (if x \<in> set m then (h x)\<lparr>health := ph (species (h x))\<rparr> else h x)" for x
    unfolding h1_def by (rule heal_fold)
  have "team (t\<lparr>team := ArrayR m\<rparr>) = ArrayR m" by simp
  from assemble_team_members[OF this assms(2), of h1] obtain t2 where
    a: "assemble_team h1 (t\<lparr>team := ArrayR m\<rparr>) mode crit = Inr t2" and
    m2: "mset (members (team t2)) = mset m" and mem: "team_memory t2 = Some m" and
    cls: "(mode = SET \<and> (\<exists>xs. team t2 = ArrayStack xs)) \<or>
      (mode = ROTATE \<and> (\<exists>xs. team t2 = CircularQueue xs)) \<or>
      (mode = OPTIMISE \<and> (\<exists>xs. team t2 = ArraySortedList xs))"
    using assms(1) by auto
  have r: "regenerate_team ph h t mode crit =
      (if special_counter t2 mod 2 = 1 then bind_err (special t2 mode) (\<lambda>t3. Inr (h1, t3))
       else Inr (h1, t2))"
    using assms(1) a by (simp add: regenerate_team_def Let_def bind_err_def h1_def)
  show ?thesis
  proof (cases "special_counter t2 mod 2 = 1")
    case True
    from special_returns[OF cls] obtain t3 where s: "special t2 mode = Inr t3" by blast
    from special_members[OF s] m2 mem
    have "mset (members (team t3)) = mset m" "team_memory t3 = Some m"
      by simp_all
    moreover have "regenerate_team ph h t mode crit = Inr (h1, t3)"
      using r True s by (simp add: bind_err_def)
    ultimately show ?thesis using hv by simp
  next
    case False
    hence "regenerate_team ph h t mode crit = Inr (h1, t2)" using r by simp
    thus ?thesis using m2 mem hv by simp
  qed
qed

theorem regenerate_team_C7_witness:
  "team_memory (poke_team (example_trainer heap_AB [0, 1] SET)) = Some [0, 1] \<and>
   (case regenerate_team example_health (heap_AB(0 := example_A\<lparr>health := 3, level := 4\<rparr>))
           ((poke_team (example_trainer heap_AB [0, 1] SET))\<lparr>team := ArrayStack [0]\<rparr>)
           SET None of
      Inr (h', t') \<Rightarrow>
        team t' = ArrayStack [1, 0] \<and> health (h' 0) = 100 \<and> level (h' 0) = 4 \<and>
        health (h' 1) = 100
    | Inl e \<Rightarrow> False)"
proof -
  let ?t = "(poke_team (example_trainer heap_AB [0, 1] SET))\<lparr>team := ArrayStack [0]\<rparr>"
  let ?h = "heap_AB(0 := example_A\<lparr>health := 3, level := 4\<rparr>)"
  have m: "team_memory (poke_team (example_trainer heap_AB [0, 1] SET)) = Some [0, 1]"
    by code_simp
  hence h: "team_memory ?t = Some [0, 1]" "SET = OPTIMISE \<longrightarrow> (None :: Criterion option) \<noteq> None"
    by simp_all
  from regenerate_team_C7 [OF h, of example_health ?h] obtain h' t' where
    r: "regenerate_team example_health ?h ?t SET None = Inr (h', t')" by blast
  have e: "(case regenerate_team example_health ?h ?t SET None of
      Inr (h', t') \<Rightarrow>
        team t' = ArrayStack [1, 0] \<and> health (h' 0) = 100 \<and> level (h' 0) = 4 \<and>
        health (h' 1) = 100
    | Inl e \<Rightarrow> False)"
    by code_simp
  from m r e show ?thesis by simp
qed

text \<open>
  The claim as stated fails. In the battle of A against D in mode ROTATE the
  combatant D (address 1) faints at the first hit and is not returned to the queue
  of team 2, which ends empty. \<open>team_memory\<close> still holds it, and after
  \<open>regenerate_team\<close> it is back in the queue with its baseline health.
\<close>

theorem regenerate_team_C7_counterexample:
  "(case commence_battle example_E 2 heap_AD (example_battle heap_AD ROTATE) of
      Some (Inr (w, h', b')) \<Rightarrow>
        w = Some Side1 \<and> \<not> is_alive (h' 1) \<and> team_of b' Side2 = CircularQueue [] \<and>
        (case regenerate_team example_health h' (poke_team (trainer_2 b')) ROTATE None of
           Inr (h'', t'') \<Rightarrow>
             team t'' = CircularQueue [1] \<and> health (h'' 1) = 5 \<and> is_alive (h'' 1)
         | Inl e \<Rightarrow> False)
    | _ \<Rightarrow> False)"
  by code_simp


end
